theory Spec2Isabelle
  imports Complex_Main
begin

section \<open>The iterator-to-file adapter\<close>

text \<open>
  \<^verbatim>\<open>_Iter2FileLikeObject\<close> (sync.py, lines 29-59) wraps the iterator of body chunks
  that \<^verbatim>\<open>direct_get_object\<close> returns. A Python 2 \<^verbatim>\<open>str\<close> is a byte string:
  a \<open>string\<close> here. The iterator is the list of the chunks it has still to yield;
  \<^verbatim>\<open>iterator.next()\<close> takes the head, and raises \<^verbatim>\<open>StopIteration\<close> on the empty
  list. The field \<^verbatim>\<open>_chunk\<close> is \<open>priv_chunk\<close> (an Isabelle name cannot start with
  an underscore).
\<close>

record Iter2FileLikeObject =
  iterator :: "string list"
  priv_chunk :: string

definition Iter2FileLikeObject_init :: "string list \<Rightarrow> Iter2FileLikeObject" where
  "Iter2FileLikeObject_init it = \<lparr>iterator = it, priv_chunk = []\<rparr>"

text \<open>
  \<^verbatim>\<open>read(size)\<close>: the returned string and the object after the call (the argument is
  \<open>sz\<close> here, \<open>size\<close> being a constant of HOL). With a negative size the saved
  remainder and everything the iterator still yields are returned, and the iterator is
  exhausted. Otherwise one chunk is taken from the iterator (the empty string when it
  is exhausted) and cut at the size, the rest going to \<^verbatim>\<open>_chunk\<close>.
\<close>

definition read :: "int \<Rightarrow> Iter2FileLikeObject \<Rightarrow> string \<times> Iter2FileLikeObject" where
  "read sz self =
     (if sz < 0 then
        (let chunk = priv_chunk self
         in (chunk @ concat (iterator self), self\<lparr>priv_chunk := [], iterator := []\<rparr>))
      else
        (let (chunk, self1) =
               (case iterator self of
                  [] \<Rightarrow> ([], self)
                | c # rest \<Rightarrow> (c, self\<lparr>iterator := rest\<rparr>))
         in if int (length chunk) \<le> sz then (chunk, self1)
            else (take (nat sz) chunk, self1\<lparr>priv_chunk := drop (nat sz) chunk\<rparr>)))"

text \<open>
  A consumer's sequence of calls \<^verbatim>\<open>read(n1)\<close>, \<^verbatim>\<open>read(n2)\<close>, ... on one object: the
  strings returned, in order, and the object after the last call.
\<close>

fun reads :: "int list \<Rightarrow> Iter2FileLikeObject \<Rightarrow> string list \<times> Iter2FileLikeObject" where
  "reads [] self = ([], self)"
| "reads (sz # sizes) self =
     (let (data, self1) = read sz self;
          (datas, self2) = reads sizes self1
      in (data # datas, self2))"

section \<open>Exceptions, rows and the local container database\<close>

text \<open>
  Every \<^verbatim>\<open>raise\<close> of the source is a value. \<^verbatim>\<open>client.ClientException\<close> carries its
  \<^verbatim>\<open>http_status\<close>; \<open>UnboundLocalError\<close> is what Python raises when a local variable
  is read before any assignment (it names the variable); \<open>Exception\<close> stands for any
  other instance of \<^verbatim>\<open>Exception\<close>. All three are caught by \<^verbatim>\<open>except Exception\<close>; only
  the first by \<^verbatim>\<open>except client.ClientException\<close>. What is not an instance of
  \<^verbatim>\<open>Exception\<close> (a keyboard interrupt, an exit) is outside the model.
\<close>

datatype exn =
    ClientException int
  | UnboundLocalError string
  | Exception string

text \<open>A change row of the container's object table, and the result of \<^verbatim>\<open>get_info()\<close>.\<close>

record row =
  ROWID :: int
  name :: string
  created_at :: string
  deleted :: bool

record info =
  account :: string
  container :: string
  x_container_sync_row :: int

text \<open>
  What one container database file holds. \<open>db_metadata\<close> lists the items of the
  \<^verbatim>\<open>metadata\<close> dict, key and \<^verbatim>\<open>(value, timestamp)\<close>, in the order \<^verbatim>\<open>iteritems()\<close>
  yields them.
\<close>

record container_db =
  db_info :: info
  db_deleted :: bool
  db_metadata :: "(string \<times> string \<times> string) list"
  db_objects :: "row list"

record broker =
  db_file :: string

type_synonym headers = "string \<rightharpoonup> string"

text \<open>A node of the object ring is opaque to this code: it is only passed on.\<close>

type_synonym node = string

text \<open>
  The calls made to the collaborators outside this file, with their arguments:
  \<^verbatim>\<open>client.delete_object\<close>, \<^verbatim>\<open>object_ring.get_nodes\<close>,
  \<^verbatim>\<open>direct_client.direct_get_object\<close> and \<^verbatim>\<open>client.put_object\<close>.
\<close>

datatype call =
    DeleteObject string string headers
  | GetNodes string string string
  | DirectGetObject node int string string string
  | PutObject string string headers Iter2FileLikeObject

text \<open>The log lines, one constructor for each call of the logger in the source.\<close>

datatype log_entry =
    InfoValidateSyncTo string "string option"
  | ExceptionSyncing string exn
  | InfoUnauth string string string string
  | InfoNotFound string string string string
  | ExceptionSyncingRow string row exn

text \<open>
  The state the daemon changes: its five counters, the log, the container databases
  on the local devices (by path), the calls made to the collaborators so far, and the
  number of times \<^verbatim>\<open>time.time()\<close> has been read. The field \<open>history\<close> is never read
  by the model: it records, in the order they happen, each return of
  \<^verbatim>\<open>container_sync_row\<close> to the row loop (the row and the result) and each
  \<^verbatim>\<open>set_x_container_sync_row\<close> (the database written and the value).
\<close>

datatype event =
    SyncRowReturned row bool
  | CursorWritten string int

record state =
  container_syncs :: int
  container_deletes :: int
  container_puts :: int
  container_skips :: int
  container_failures :: int
  logged :: "log_entry list"
  dbs :: "string \<rightharpoonup> container_db"
  calls :: "call list"
  clock :: nat
  history :: "event list"

text \<open>
  The configuration of the daemon (\<open>allowed_sync_hosts\<close>, \<open>container_time\<close>) and the
  behaviour of everything outside this file, taken as parameters. A collaborator
  answers from the calls made so far and its arguments, so it may answer the same
  request differently each time. \<open>time env n\<close> is the reading of the \<open>n\<close>-th call of
  \<^verbatim>\<open>time.time()\<close>; \<open>broker_init_error env path\<close> is the exception that the constructor
  \<^verbatim>\<open>ContainerBroker(path)\<close> raises, if any; \<open>random_index env h i\<close> is the random draw
  \<^verbatim>\<open>random.shuffle\<close> uses at position \<open>i\<close>; \<open>validate_sync_to\<close> returns \<open>None\<close> or the reason
  the sync target is refused. \<open>delete_object\<close> and \<open>put_object\<close> return the exception
  they raise, if any. The readings of the clock are floats, taken as the real numbers
  they denote, so that comparing two of them is exact; \<open>float_add env x n\<close> is the float
  that Python gives for \<^verbatim>\<open>x + n\<close> with a float \<open>x\<close> and an int \<open>n\<close>, rounded as the
  machine rounds it. \<open>get_items_since_error\<close> and \<open>set_x_container_sync_row_error\<close> are
  the failures of the local store (section 7 of the spec, local-store corruption):
  the exception the broker raises, if any, when the operation is called in a state on a
  broker with these arguments.
\<close>

record env =
  allowed_sync_hosts :: "string list"
  container_time :: int
  validate_sync_to :: "string \<Rightarrow> string list \<Rightarrow> string option"
  time :: "nat \<Rightarrow> real"
  float_add :: "real \<Rightarrow> int \<Rightarrow> real"
  broker_init_error :: "string \<Rightarrow> exn option"
  get_items_since_error :: "state \<Rightarrow> broker \<Rightarrow> int \<Rightarrow> int \<Rightarrow> exn option"
  set_x_container_sync_row_error :: "state \<Rightarrow> broker \<Rightarrow> int \<Rightarrow> exn option"
  get_nodes :: "call list \<Rightarrow> string \<Rightarrow> string \<Rightarrow> string \<Rightarrow> exn + (int \<times> node list)"
  random_index :: "call list \<Rightarrow> nat \<Rightarrow> nat"
  direct_get_object ::
    "call list \<Rightarrow> node \<Rightarrow> int \<Rightarrow> string \<Rightarrow> string \<Rightarrow> string \<Rightarrow> exn + (headers \<times> string list)"
  delete_object :: "call list \<Rightarrow> string \<Rightarrow> string \<Rightarrow> headers \<Rightarrow> exn option"
  put_object :: "call list \<Rightarrow> string \<Rightarrow> string \<Rightarrow> headers \<Rightarrow> Iter2FileLikeObject \<Rightarrow> exn option"

subsection \<open>The container broker\<close>

text \<open>
  \<^verbatim>\<open>ContainerBroker\<close> (swift.common.db) is not part of the source file; section 6 of the
  spec gives its interface (the LocalStateAccessor). Its operations read and write the
  database that the state holds at the broker's path, and raise when there is none.
  The two operations of the row loop also raise whenever the environment says so.
\<close>

text \<open>
  Modelled from the spec: the constructor \<^verbatim>\<open>ContainerBroker(path)\<close>, missing from the
  source. It makes the handle for the path ("open the LocalStateAccessor for the path",
  section 4.1), unless it raises the exception the environment gives for the path.
\<close>

definition ContainerBroker :: "env \<Rightarrow> string \<Rightarrow> exn + broker" where
  "ContainerBroker env path =
     (case broker_init_error env path of
        Some e \<Rightarrow> Inl e
      | None \<Rightarrow> Inr \<lparr>db_file = path\<rparr>)"

text \<open>
  Modelled from the spec: \<^verbatim>\<open>ContainerBroker.get_info()\<close>, missing from the source
  (section 6, \<^verbatim>\<open>getInfo() -> {account, container, cursor}\<close>).
\<close>

definition get_info :: "broker \<Rightarrow> state \<Rightarrow> exn + info" where
  "get_info b s =
     (case dbs s (db_file b) of
        None \<Rightarrow> Inl (Exception ''DB does not exist'')
      | Some db \<Rightarrow> Inr (db_info db))"

text \<open>
  Modelled from the spec: \<^verbatim>\<open>ContainerBroker.is_deleted()\<close>, missing from the source
  (section 6, \<^verbatim>\<open>isDeleted() -> bool\<close>).
\<close>

definition is_deleted :: "broker \<Rightarrow> state \<Rightarrow> exn + bool" where
  "is_deleted b s =
     (case dbs s (db_file b) of
        None \<Rightarrow> Inl (Exception ''DB does not exist'')
      | Some db \<Rightarrow> Inr (db_deleted db))"

text \<open>
  Modelled from the spec: \<^verbatim>\<open>ContainerBroker.metadata\<close>, missing from the source
  (section 6, the mapping of key to value and timestamp).
\<close>

definition metadata :: "broker \<Rightarrow> state \<Rightarrow> exn + (string \<times> string \<times> string) list" where
  "metadata b s =
     (case dbs s (db_file b) of
        None \<Rightarrow> Inl (Exception ''DB does not exist'')
      | Some db \<Rightarrow> Inr (db_metadata db))"

text \<open>
  Modelled from the spec: \<^verbatim>\<open>ContainerBroker.get_items_since(start, count)\<close>, missing
  from the source (section 6, \<^verbatim>\<open>getChangesSince(cursor, limit)\<close>, an ordered sequence
  of rows; section 4.1, step 6, "the next change row strictly after the current
  cursor"): the rows with a \<^verbatim>\<open>ROWID\<close> above \<open>start\<close>, in the order of their \<^verbatim>\<open>ROWID\<close>,
  at most \<open>count\<close> of them; or the exception of a failing store (section 7).
\<close>

definition get_items_since :: "env \<Rightarrow> broker \<Rightarrow> int \<Rightarrow> int \<Rightarrow> state \<Rightarrow> exn + row list" where
  "get_items_since env b start count s =
     (case get_items_since_error env s b start count of
        Some e \<Rightarrow> Inl e
      | None \<Rightarrow>
          (case dbs s (db_file b) of
             None \<Rightarrow> Inl (Exception ''DB does not exist'')
           | Some db \<Rightarrow>
               Inr (take (nat count)
                      (sort_key ROWID (filter (\<lambda>r. start < ROWID r) (db_objects db))))))"

text \<open>
  Modelled from the spec: \<^verbatim>\<open>ContainerBroker.set_x_container_sync_row(value)\<close>, missing
  from the source (section 6, \<^verbatim>\<open>setCursor(rowID)\<close>): it stores the cursor in the
  database, and the write is added to the history; or it raises the exception of a
  failing store (section 7) and leaves the database as it was.
\<close>

definition set_x_container_sync_row :: "env \<Rightarrow> broker \<Rightarrow> int \<Rightarrow> state \<Rightarrow> exn + state" where
  "set_x_container_sync_row env b v s =
     (case set_x_container_sync_row_error env s b v of
        Some e \<Rightarrow> Inl e
      | None \<Rightarrow>
          (case dbs s (db_file b) of
             None \<Rightarrow> Inl (Exception ''DB does not exist'')
           | Some db \<Rightarrow>
               Inr (s\<lparr>dbs := (dbs s)(db_file b \<mapsto>
                            db\<lparr>db_info := (db_info db)\<lparr>x_container_sync_row := v\<rparr>\<rparr>),
                      history := history s @ [CursorWritten (db_file b) v]\<rparr>)))"

subsection \<open>String methods of Python\<close>

definition lower_char :: "char \<Rightarrow> char" where
  "lower_char c =
     (case map_of (zip ''ABCDEFGHIJKLMNOPQRSTUVWXYZ'' ''abcdefghijklmnopqrstuvwxyz'') c of
        Some l \<Rightarrow> l
      | None \<Rightarrow> c)"

definition lower :: "string \<Rightarrow> string" where
  "lower s = map lower_char s"

definition endswith :: "string \<Rightarrow> string \<Rightarrow> bool" where
  "endswith s suffix_str =
     (length suffix_str \<le> length s \<and> drop (length s - length suffix_str) s = suffix_str)"

definition rstrip :: "string \<Rightarrow> string \<Rightarrow> string" where
  "rstrip chars s = rev (dropWhile (\<lambda>c. c \<in> set chars) (rev s))"

definition strip :: "string \<Rightarrow> string \<Rightarrow> string" where
  "strip chars s = rstrip chars (dropWhile (\<lambda>c. c \<in> set chars) s)"

text \<open>Python's truth value of a value that is \<^verbatim>\<open>None\<close> or a string.\<close>

definition truthy :: "string option \<Rightarrow> bool" where
  "truthy v = (case v of None \<Rightarrow> False | Some str \<Rightarrow> str \<noteq> [])"

text \<open>
  \<^verbatim>\<open>random.shuffle(x)\<close>: for \<open>i\<close> from \<open>len(x) - 1\<close> down to 1, swap \<open>x[i]\<close> with
  \<open>x[j]\<close> for a random \<open>j\<close> in \<open>0..i\<close>. The draw comes from the environment and is
  reduced modulo \<open>i + 1\<close>.
\<close>

fun shuffle_from :: "(nat \<Rightarrow> nat) \<Rightarrow> nat \<Rightarrow> 'a list \<Rightarrow> 'a list" where
  "shuffle_from rnd 0 x = x"
| "shuffle_from rnd (Suc i) x =
     (let j = rnd (Suc i) mod (Suc i + 1)
      in shuffle_from rnd i (x[Suc i := x ! j, j := x ! Suc i]))"

definition shuffle :: "(nat \<Rightarrow> nat) \<Rightarrow> 'a list \<Rightarrow> 'a list" where
  "shuffle rnd x = shuffle_from rnd (length x - 1) x"

subsection \<open>Replicating one row\<close>

text \<open>
  The loop over the nodes (lines 263-281): each node is asked in turn; the first
  answer ends the loop, a \<^verbatim>\<open>ClientException\<close> is kept in \<open>exc\<close> and the next node is
  tried, any other exception propagates. \<open>node_var\<close> is the loop variable \<^verbatim>\<open>node\<close>,
  unbound before the first iteration. When the nodes are exhausted (the \<^verbatim>\<open>else\<close> of
  the \<^verbatim>\<open>for\<close>), the kept exception is raised; with none kept, the arguments of the
  "Unknown exception" are built first, and they read \<^verbatim>\<open>node\<close>. The constant
  \<^verbatim>\<open>resp_chunk_size=65536\<close> of the GET is left out of the recorded call.
\<close>

fun direct_get_loop ::
  "env \<Rightarrow> int \<Rightarrow> info \<Rightarrow> row \<Rightarrow> node list \<Rightarrow> exn option \<Rightarrow> node option \<Rightarrow> state
    \<Rightarrow> (exn + (headers \<times> string list)) \<times> state" where
  "direct_get_loop env part info row [] exc node_var s =
     (case exc of
        Some e \<Rightarrow> (Inl e, s)
      | None \<Rightarrow>
          (case node_var of
             None \<Rightarrow> (Inl (UnboundLocalError ''node''), s)
           | Some node \<Rightarrow> (Inl (Exception ''Unknown exception trying to GET''), s)))"
| "direct_get_loop env part info row (node # nodes) exc node_var s =
     (let result = direct_get_object env (calls s) node part (account info) (container info) (name row);
          s1 = s\<lparr>calls := calls s @ [DirectGetObject node part (account info) (container info) (name row)]\<rparr>
      in case result of
           Inr (headers, body) \<Rightarrow> (Inr (headers, body), s1)
         | Inl (ClientException status) \<Rightarrow>
             direct_get_loop env part info row nodes (Some (ClientException status)) (Some node) s1
         | Inl err \<Rightarrow> (Inl err, s1))"

text \<open>The headers of the PUT, from the headers of the GET (lines 282-288).\<close>

definition put_headers :: "headers \<Rightarrow> row \<Rightarrow> string \<Rightarrow> headers" where
  "put_headers headers row sync_key =
     (let headers1 = fold (\<lambda>key h. if h key \<noteq> None then h(key := None) else h)
                       [''date'', ''last-modified''] headers;
          headers2 = (case headers1 ''etag'' of
                        None \<Rightarrow> headers1
                      | Some etag \<Rightarrow> headers1(''etag'' \<mapsto> strip [CHR 0x22] etag));
          headers3 = headers2(''X-Timestamp'' \<mapsto> created_at row);
          headers4 = headers3(''X-Container-Sync-Key'' \<mapsto> sync_key)
      in headers4)"

text \<open>
  The body of the \<^verbatim>\<open>try\<close> of \<^verbatim>\<open>container_sync_row\<close> (lines 249-292): the exception it
  ends with, if any, and the state then.
\<close>

definition container_sync_row_try ::
  "env \<Rightarrow> row \<Rightarrow> string \<Rightarrow> string \<Rightarrow> info \<Rightarrow> state \<Rightarrow> exn option \<times> state" where
  "container_sync_row_try env row sync_to sync_key info s =
     (if deleted row then
        (let headers = [''X-Timestamp'' \<mapsto> created_at row, ''X-Container-Sync-Key'' \<mapsto> sync_key];
             result = delete_object env (calls s) sync_to (name row) headers;
             s1 = s\<lparr>calls := calls s @ [DeleteObject sync_to (name row) headers]\<rparr>;
             s2 = s1\<lparr>container_deletes := container_deletes s1 + 1\<rparr>
         in case result of
              None \<Rightarrow> (None, s2)
            | Some (ClientException status) \<Rightarrow>
                if status \<noteq> 404 then (Some (ClientException status), s1) else (None, s2)
            | Some err \<Rightarrow> (Some err, s1))
      else
        (let result = get_nodes env (calls s) (account info) (container info) (name row);
             s1 = s\<lparr>calls := calls s @ [GetNodes (account info) (container info) (name row)]\<rparr>
         in case result of
              Inl err \<Rightarrow> (Some err, s1)
            | Inr (part, nodes) \<Rightarrow>
                (let nodes1 = shuffle (random_index env (calls s1)) nodes
                 in case direct_get_loop env part info row nodes1 None None s1 of
                      (Inl err, s2) \<Rightarrow> (Some err, s2)
                    | (Inr (headers, body), s2) \<Rightarrow>
                        (let headers1 = put_headers headers row sync_key;
                             contents = Iter2FileLikeObject_init body;
                             result = put_object env (calls s2) sync_to (name row) headers1 contents;
                             s3 = s2\<lparr>calls := calls s2 @ [PutObject sync_to (name row) headers1 contents]\<rparr>
                         in case result of
                              Some err \<Rightarrow> (Some err, s3)
                            | None \<Rightarrow> (None, s3\<lparr>container_puts := container_puts s3 + 1\<rparr>)))))"

text \<open>
  \<^verbatim>\<open>container_sync_row\<close> with its two handlers (lines 293-322): what it returns, and
  the state.
\<close>

definition container_sync_row ::
  "env \<Rightarrow> row \<Rightarrow> string \<Rightarrow> string \<Rightarrow> broker \<Rightarrow> info \<Rightarrow> state \<Rightarrow> bool \<times> state" where
  "container_sync_row env row sync_to sync_key broker info s =
     (case container_sync_row_try env row sync_to sync_key info s of
        (None, s1) \<Rightarrow> (True, s1)
      | (Some (ClientException status), s1) \<Rightarrow>
          (let entry =
                 (if status = 401 then InfoUnauth (account info) (container info) sync_to sync_key
                  else if status = 404 then InfoNotFound (account info) (container info) sync_to sync_key
                  else ExceptionSyncingRow (db_file broker) row (ClientException status))
           in (False, s1\<lparr>logged := logged s1 @ [entry],
                          container_failures := container_failures s1 + 1\<rparr>))
      | (Some err, s1) \<Rightarrow>
          (False, s1\<lparr>logged := logged s1 @ [ExceptionSyncingRow (db_file broker) row err],
                       container_failures := container_failures s1 + 1\<rparr>))"

text \<open>
  What replicating a row leaves alone: the databases, the clock, the history and the
  counters of syncs and skips.
\<close>

definition same_store :: "state \<Rightarrow> state \<Rightarrow> bool" where
  "same_store s s' \<longleftrightarrow>
     dbs s' = dbs s \<and> clock s' = clock s \<and> history s' = history s \<and>
     container_syncs s' = container_syncs s \<and> container_skips s' = container_skips s"

lemma direct_get_loop_same_store:
  "direct_get_loop env part info row nodes exc nv s = (r, s') \<Longrightarrow> same_store s s'"
proof (induction nodes arbitrary: exc nv s)
  case Nil
  then show ?case
    by (auto simp: same_store_def split: option.splits)
next
  case (Cons node nodes)
  let ?s1 = "s\<lparr>calls := calls s @ [DirectGetObject node part (account info) (container info) (name row)]\<rparr>"
  have s1: "same_store s ?s1" by (simp add: same_store_def)
  show ?case
  proof (cases "direct_get_object env (calls s) node part (account info) (container info) (name row)")
    case (Inr hb)
    with Cons.prems s1 show ?thesis by (cases hb) (auto simp: Let_def)
  next
    case (Inl e)
    show ?thesis
    proof (cases e)
      case (ClientException status)
      with Inl Cons.prems have "direct_get_loop env part info row nodes (Some (ClientException status)) (Some node) ?s1 = (r, s')"
        by (simp add: Let_def)
      from Cons.IH[OF this] s1 show ?thesis by (simp add: same_store_def)
    qed (use Inl Cons.prems s1 in \<open>auto simp: Let_def\<close>)
  qed
qed

lemma container_sync_row_try_same_store:
  "container_sync_row_try env row sync_to sync_key info s = (r, s') \<Longrightarrow> same_store s s'"
  unfolding container_sync_row_try_def Let_def
  by (auto split: if_splits option.splits sum.splits exn.splits prod.splits
      dest!: direct_get_loop_same_store simp: same_store_def)

lemma container_sync_row_same_store:
  "container_sync_row env row sync_to sync_key broker info s = (ok, s') \<Longrightarrow> same_store s s'"
  unfolding container_sync_row_def Let_def
  by (auto split: if_splits option.splits exn.splits prod.splits
      dest!: container_sync_row_try_same_store simp: same_store_def)

subsection \<open>The row loop\<close>

definition db_rows :: "broker \<Rightarrow> state \<Rightarrow> row list" where
  "db_rows b s = (case dbs s (db_file b) of None \<Rightarrow> [] | Some db \<Rightarrow> db_objects db)"

lemma get_items_since_Cons:
  assumes "get_items_since env b start count s = Inr (row # rest)"
  shows "row \<in> set (db_rows b s)" and "start < ROWID row"
proof -
  from assms obtain db where db: "dbs s (db_file b) = Some db"
    and rows: "row # rest = take (nat count) (sort_key ROWID (filter (\<lambda>r. start < ROWID r) (db_objects db)))"
    by (auto simp: get_items_since_def split: option.splits)
  have "row \<in> set (take (nat count) (sort_key ROWID (filter (\<lambda>r. start < ROWID r) (db_objects db))))"
    by (metis rows list.set_intros(1))
  then have "row \<in> set (sort_key ROWID (filter (\<lambda>r. start < ROWID r) (db_objects db)))"
    by (rule in_set_takeD)
  then have "row \<in> set (filter (\<lambda>r. start < ROWID r) (db_objects db))"
    by simp
  then show "row \<in> set (db_rows b s)" and "start < ROWID row"
    by (simp_all add: db_rows_def db)
qed

lemma set_x_container_sync_row_rows:
  "set_x_container_sync_row env b v s = Inr s' \<Longrightarrow> db_rows b' s' = db_rows b' s"
  by (cases "db_file b' = db_file b")
     (auto simp: set_x_container_sync_row_def db_rows_def split: option.splits)

lemma pending_decreases:
  assumes "row \<in> set xs" and "start < ROWID row"
  shows "length (filter (\<lambda>r. ROWID row < ROWID r) xs) < length (filter (\<lambda>r. start < ROWID r) xs)"
proof -
  have "filter (\<lambda>r. ROWID row < ROWID r) xs
          = filter (\<lambda>r. ROWID row < ROWID r) (filter (\<lambda>r. start < ROWID r) xs)"
    using assms(2) by (auto intro!: filter_cong)
  moreover have "row \<in> set (filter (\<lambda>r. start < ROWID r) xs)"
    using assms by simp
  then have "length (filter (\<lambda>r. ROWID row < ROWID r) (filter (\<lambda>r. start < ROWID r) xs))
          < length (filter (\<lambda>r. start < ROWID r) xs)"
    by (rule length_filter_less) simp
  ultimately show ?thesis by simp
qed

lemma row_loop_measure:
  assumes items: "get_items_since env b start 1 s1 = Inr (row # rest)"
    and sync: "(ok, s2) = container_sync_row env row sync_to sync_key b info s1"
    and set: "set_x_container_sync_row env b (ROWID row)
                (s2\<lparr>history := history s2 @ [SyncRowReturned row True]\<rparr>) = Inr s4"
  shows "length (filter (\<lambda>r. ROWID row < ROWID r) (db_rows b s4))
           < length (filter (\<lambda>r. start < ROWID r) (db_rows b s1))"
proof -
  have "same_store s1 s2"
    using sync container_sync_row_same_store by metis
  then have "db_rows b s2 = db_rows b s1"
    by (simp add: same_store_def db_rows_def)
  moreover have "db_rows b s4 = db_rows b (s2\<lparr>history := history s2 @ [SyncRowReturned row True]\<rparr>)"
    using set by (rule set_x_container_sync_row_rows)
  ultimately have "db_rows b s4 = db_rows b s1"
    by (simp add: db_rows_def)
  with pending_decreases[OF get_items_since_Cons[OF items]] show ?thesis
    by simp
qed

text \<open>
  The \<^verbatim>\<open>while\<close> loop of \<^verbatim>\<open>container_sync\<close> (lines 220-228) and how it ends: the
  deadline has passed (the condition is false), the rows are exhausted (\<^verbatim>\<open>break\<close>), a
  row failed (\<^verbatim>\<open>return\<close>), or an operation of the broker raised. The loop terminates
  on every input: each round that goes on has moved \<open>sync_row\<close> past one more row of
  the database.
\<close>

datatype loop_exit = Deadline | Exhausted | RowFailed | Raised exn

function row_loop ::
  "env \<Rightarrow> real \<Rightarrow> string \<Rightarrow> string \<Rightarrow> broker \<Rightarrow> info \<Rightarrow> int \<Rightarrow> state \<Rightarrow> loop_exit \<times> state" where
  "row_loop env stop_at sync_to sync_key broker info sync_row s =
     (let now = time env (clock s);
          s1 = s\<lparr>clock := Suc (clock s)\<rparr>
      in if \<not> now < stop_at then (Deadline, s1)
         else
           (case get_items_since env broker sync_row 1 s1 of
              Inl err \<Rightarrow> (Raised err, s1)
            | Inr [] \<Rightarrow> (Exhausted, s1)
            | Inr (row # rest) \<Rightarrow>
                (case container_sync_row env row sync_to sync_key broker info s1 of
                   (False, s2) \<Rightarrow>
                     (RowFailed, s2\<lparr>history := history s2 @ [SyncRowReturned row False]\<rparr>)
                 | (True, s2) \<Rightarrow>
                     (let s3 = s2\<lparr>history := history s2 @ [SyncRowReturned row True]\<rparr>
                      in case set_x_container_sync_row env broker (ROWID row) s3 of
                           Inl err \<Rightarrow> (Raised err, s3)
                         | Inr s4 \<Rightarrow>
                             row_loop env stop_at sync_to sync_key broker info (ROWID row) s4))))"
  by pat_completeness auto
termination
proof (relation "measure (\<lambda>(env, stop_at, sync_to, sync_key, broker, info, sync_row, s).
           length (filter (\<lambda>r. sync_row < ROWID r) (db_rows broker s)))", goal_cases)
  case 1
  show ?case by simp
next
  case (2 env stop_at sync_to sync_key broker info sync_row s now s1 rows row rest ok s2 s3 s4)
  have "db_rows broker s1 = db_rows broker s"
    using 2(2) by (simp add: db_rows_def)
  with row_loop_measure[of env broker sync_row s1 row rest ok s2 sync_to sync_key info s4] 2
  show ?case by simp
qed

declare row_loop.simps [simp del]

subsection \<open>Synchronising one container\<close>

text \<open>
  The scan of the metadata (lines 202-206): the keys are compared in lower case; a
  later item with the same lowered key overwrites an earlier one.
\<close>

fun scan_metadata ::
  "(string \<times> string \<times> string) list \<Rightarrow> string option \<times> string option
    \<Rightarrow> string option \<times> string option" where
  "scan_metadata [] (sync_to, sync_key) = (sync_to, sync_key)"
| "scan_metadata ((key, value, timestamp) # items) (sync_to, sync_key) =
     (if lower key = ''x-container-sync-to'' then scan_metadata items (Some value, sync_key)
      else if lower key = ''x-container-sync-key'' then scan_metadata items (sync_to, Some value)
      else scan_metadata items (sync_to, sync_key))"

text \<open>
  The body of the \<^verbatim>\<open>try\<close> of \<^verbatim>\<open>container_sync\<close> (lines 194-229): the exception it ends
  with, if any, the local variable \<^verbatim>\<open>broker\<close> (\<open>None\<close> while it is unbound), and the
  state. Past the test of line 207 both \<open>sync_to\<close> and \<open>sync_key\<close> hold a string, which
  \<open>sync_to1\<close> and \<open>sync_key1\<close> take out of the option.
\<close>

definition container_sync_try ::
  "env \<Rightarrow> string \<Rightarrow> state \<Rightarrow> exn option \<times> broker option \<times> state" where
  "container_sync_try env path s =
     (if \<not> endswith path ''.db'' then (None, None, s)
      else
        (case ContainerBroker env path of
           Inl err \<Rightarrow> (Some err, None, s)
         | Inr broker \<Rightarrow>
             (case get_info broker s of
                Inl err \<Rightarrow> (Some err, Some broker, s)
              | Inr info \<Rightarrow>
                  (case is_deleted broker s of
                     Inl err \<Rightarrow> (Some err, Some broker, s)
                   | Inr True \<Rightarrow> (None, Some broker, s)
                   | Inr False \<Rightarrow>
                       (case metadata broker s of
                          Inl err \<Rightarrow> (Some err, Some broker, s)
                        | Inr items \<Rightarrow>
                            (let sync_row = x_container_sync_row info;
                                 (sync_to, sync_key) = scan_metadata items (None, None)
                             in if \<not> truthy sync_to \<or> \<not> truthy sync_key then
                                  (None, Some broker, s\<lparr>container_skips := container_skips s + 1\<rparr>)
                                else
                                  (let sync_to1 = rstrip ''/'' (case sync_to of Some v \<Rightarrow> v | None \<Rightarrow> []);
                                       sync_key1 = (case sync_key of Some v \<Rightarrow> v | None \<Rightarrow> []);
                                       err = validate_sync_to env sync_to1 (allowed_sync_hosts env)
                                   in if truthy err then
                                        (None, Some broker,
                                         s\<lparr>logged := logged s @ [InfoValidateSyncTo (db_file broker) err],
                                           container_failures := container_failures s + 1\<rparr>)
                                      else
                                        (let stop_at = float_add env (time env (clock s)) (container_time env);
                                             s1 = s\<lparr>clock := Suc (clock s)\<rparr>
                                         in case row_loop env stop_at sync_to1 sync_key1 broker info sync_row s1 of
                                              (Raised err, s2) \<Rightarrow> (Some err, Some broker, s2)
                                            | (RowFailed, s2) \<Rightarrow> (None, Some broker, s2)
                                            | (_, s2) \<Rightarrow>
                                                (None, Some broker,
                                                 s2\<lparr>container_syncs := container_syncs s2 + 1\<rparr>)))))))))"

text \<open>
  \<^verbatim>\<open>container_sync\<close> with its handler (lines 230-232): the exception that reaches the
  caller, if any, and the state. The handler counts the failure first and then builds
  the arguments of the log line, which read \<^verbatim>\<open>broker.db_file\<close>.
\<close>

definition container_sync :: "env \<Rightarrow> string \<Rightarrow> state \<Rightarrow> exn option \<times> state" where
  "container_sync env path s =
     (case container_sync_try env path s of
        (None, broker_var, s1) \<Rightarrow> (None, s1)
      | (Some err, broker_var, s1) \<Rightarrow>
          (let s2 = s1\<lparr>container_failures := container_failures s1 + 1\<rparr>
           in case broker_var of
                None \<Rightarrow> (Some (UnboundLocalError ''broker''), s2)
              | Some broker \<Rightarrow>
                  (None, s2\<lparr>logged := logged s2 @ [ExceptionSyncing (db_file broker) err]\<rparr>)))"

subsection \<open>Reading the history\<close>

text \<open>
  The events a pass adds when the rows of \<open>rows\<close> are replicated with success and
  their ids written, one after the other (each return of \<^verbatim>\<open>container_sync_row\<close> with
  \<^verbatim>\<open>True\<close> is followed at once by the write of that row's id); and the events of
  returns that no write follows.
\<close>

definition synced_events :: "string \<Rightarrow> row list \<Rightarrow> event list" where
  "synced_events path rows =
     concat (map (\<lambda>r. [SyncRowReturned r True, CursorWritten path (ROWID r)]) rows)"

definition returned_events :: "(row \<times> bool) list \<Rightarrow> event list" where
  "returned_events tries = map (\<lambda>(r, ok). SyncRowReturned r ok) tries"

text \<open>The calls of \<^verbatim>\<open>container_sync_row\<close> in a history, with their results.\<close>

fun attempts :: "event list \<Rightarrow> (row \<times> bool) list" where
  "attempts [] = []"
| "attempts (SyncRowReturned r ok # es) = (r, ok) # attempts es"
| "attempts (CursorWritten p v # es) = attempts es"

definition set_cursor :: "container_db \<Rightarrow> int \<Rightarrow> container_db" where
  "set_cursor db v = db\<lparr>db_info := (db_info db)\<lparr>x_container_sync_row := v\<rparr>\<rparr>"

text \<open>The cursor that the database at \<open>path\<close> holds, if there is a database.\<close>

definition persisted_cursor :: "state \<Rightarrow> string \<Rightarrow> int option" where
  "persisted_cursor s path = map_option (\<lambda>db. x_container_sync_row (db_info db)) (dbs s path)"


section \<open>A concrete container\<close>

text \<open>
  The inputs the closed theorems below are evaluated on. The database \<open>c.db\<close> has its
  cursor at 4 and the rows 5 (an object to PUT), 6 and 7 (two deletions), stored out of
  order. In \<open>env0\<close> the ring names two nodes, the first of which fails the GET with
  503; the DELETE of \<open>b.txt\<close> (row 6) fails with 500; every other request succeeds; the
  clock advances one second a reading, and the float sums of \<open>env0\<close> are exact (as
  they are on numbers of this size); the local store does not fail; only the target
  \<open>http://10.0.0.5/v1/AUTH_x/dest\<close> is valid.
\<close>

definition row5 :: row where
  "row5 = \<lparr>ROWID = 5, name = ''a.txt'', created_at = ''1400000000.00000'', deleted = False\<rparr>"

definition row6 :: row where
  "row6 = \<lparr>ROWID = 6, name = ''b.txt'', created_at = ''1400000001.00000'', deleted = True\<rparr>"

definition row7 :: row where
  "row7 = \<lparr>ROWID = 7, name = ''c.txt'', created_at = ''1400000002.00000'', deleted = True\<rparr>"

definition info0 :: info where
  "info0 = \<lparr>account = ''AUTH_a'', container = ''c'', x_container_sync_row = 4\<rparr>"

definition db0 :: container_db where
  "db0 = \<lparr>db_info = info0,
          db_deleted = False,
          db_metadata = [(''X-Container-Sync-To'', ''http://10.0.0.5/v1/AUTH_x/dest/'', ''1''),
                         (''X-Container-Sync-Key'', ''secret'', ''1'')],
          db_objects = [row7, row5, row6]\<rparr>"

definition s0 :: state where
  "s0 = \<lparr>container_syncs = 0, container_deletes = 0, container_puts = 0, container_skips = 0,
         container_failures = 0, logged = [], dbs = [''c.db'' \<mapsto> db0], calls = [], clock = 0,
         history = []\<rparr>"

definition fetched_headers :: headers where
  "fetched_headers = [''etag'' \<mapsto> [CHR 0x22] @ ''abc'' @ [CHR 0x22],
                      ''date'' \<mapsto> ''Tue, 13 May 2014'',
                      ''last-modified'' \<mapsto> ''Mon, 12 May 2014'']"

definition env0 :: env where
  "env0 = \<lparr>allowed_sync_hosts = [''10.0.0.5''],
           container_time = 60,
           validate_sync_to = (\<lambda>sync_to hosts.
              if sync_to = ''http://10.0.0.5/v1/AUTH_x/dest'' then None else Some ''Invalid host''),
           time = (\<lambda>n. 1000 + real n),
           float_add = (\<lambda>x n. x + real_of_int n),
           broker_init_error = (\<lambda>path. None),
           get_items_since_error = (\<lambda>s b start count. None),
           set_x_container_sync_row_error = (\<lambda>s b v. None),
           get_nodes = (\<lambda>h a c n. Inr (1, [''n1'', ''n2''])),
           random_index = (\<lambda>h i. 1),
           direct_get_object = (\<lambda>h node part a c n.
              if node = ''n1'' then Inl (ClientException 503)
              else Inr (fetched_headers, [''hello''])),
           delete_object = (\<lambda>h sync_to n hdrs.
              if n = ''b.txt'' then Some (ClientException 500) else None),
           put_object = (\<lambda>h sync_to n hdrs contents. None)\<rparr>"

lemmas scenario_defs =
  row5_def row6_def row7_def info0_def db0_def s0_def fetched_headers_def env0_def

lemmas model_defs =
  container_sync_def container_sync_try_def endswith_def ContainerBroker_def get_info_def
  is_deleted_def metadata_def lower_def lower_char_def truthy_def rstrip_def strip_def
  row_loop.simps get_items_since_def set_x_container_sync_row_def container_sync_row_def
  container_sync_row_try_def shuffle_def put_headers_def Iter2FileLikeObject_init_def Let_def

section \<open>Lemmas about the model\<close>

subsection \<open>The row loop, case by case\<close>

lemma row_loop_cases [consumes 1, case_names Deadline Raised_items Exhausted RowFailed Raised_set Continue]:
  assumes "row_loop env stop_at sync_to sync_key b info c s = (ex, s')"
  obtains
    (Deadline) "\<not> time env (clock s) < stop_at" "ex = Deadline" "s' = s\<lparr>clock := Suc (clock s)\<rparr>"
  | (Raised_items) err where "time env (clock s) < stop_at"
      "get_items_since env b c 1 (s\<lparr>clock := Suc (clock s)\<rparr>) = Inl err"
      "ex = Raised err" "s' = s\<lparr>clock := Suc (clock s)\<rparr>"
  | (Exhausted) "time env (clock s) < stop_at"
      "get_items_since env b c 1 (s\<lparr>clock := Suc (clock s)\<rparr>) = Inr []"
      "ex = Exhausted" "s' = s\<lparr>clock := Suc (clock s)\<rparr>"
  | (RowFailed) row rest s2 where "time env (clock s) < stop_at"
      "get_items_since env b c 1 (s\<lparr>clock := Suc (clock s)\<rparr>) = Inr (row # rest)"
      "container_sync_row env row sync_to sync_key b info (s\<lparr>clock := Suc (clock s)\<rparr>) = (False, s2)"
      "ex = RowFailed" "s' = s2\<lparr>history := history s2 @ [SyncRowReturned row False]\<rparr>"
  | (Raised_set) row rest s2 err where "time env (clock s) < stop_at"
      "get_items_since env b c 1 (s\<lparr>clock := Suc (clock s)\<rparr>) = Inr (row # rest)"
      "container_sync_row env row sync_to sync_key b info (s\<lparr>clock := Suc (clock s)\<rparr>) = (True, s2)"
      "set_x_container_sync_row env b (ROWID row)
         (s2\<lparr>history := history s2 @ [SyncRowReturned row True]\<rparr>) = Inl err"
      "ex = Raised err" "s' = s2\<lparr>history := history s2 @ [SyncRowReturned row True]\<rparr>"
  | (Continue) row rest s2 s4 where "time env (clock s) < stop_at"
      "get_items_since env b c 1 (s\<lparr>clock := Suc (clock s)\<rparr>) = Inr (row # rest)"
      "container_sync_row env row sync_to sync_key b info (s\<lparr>clock := Suc (clock s)\<rparr>) = (True, s2)"
      "set_x_container_sync_row env b (ROWID row)
         (s2\<lparr>history := history s2 @ [SyncRowReturned row True]\<rparr>) = Inr s4"
      "row_loop env stop_at sync_to sync_key b info (ROWID row) s4 = (ex, s')"
  using assms
  by (subst (asm) row_loop.simps)
     (auto simp: Let_def split: if_splits sum.splits list.splits prod.splits bool.splits)

text \<open>What the answers of the two fallible operations of the broker say.\<close>

lemma get_items_since_Nil:
  assumes "get_items_since env b start 1 s = Inr []" and "dbs s (db_file b) = Some db"
  shows "filter (\<lambda>r. start < ROWID r) (db_objects db) = []"
proof -
  from assms have "take 1 (sort_key ROWID (filter (\<lambda>r. start < ROWID r) (db_objects db))) = []"
    by (auto simp: get_items_since_def split: option.splits)
  then have "sort_key ROWID (filter (\<lambda>r. start < ROWID r) (db_objects db)) = []"
    by (simp add: take_eq_Nil)
  then have "set (sort_key ROWID (filter (\<lambda>r. start < ROWID r) (db_objects db))) = {}"
    by simp
  then show ?thesis
    by (simp del: set_empty add: set_empty[symmetric])
qed

lemma get_items_since_Inl:
  assumes "get_items_since env b start count s = Inl err" and "dbs s (db_file b) = Some db"
  shows "get_items_since_error env s b start count = Some err"
  using assms by (auto simp: get_items_since_def split: option.splits)

lemma set_x_container_sync_row_Inl:
  assumes "set_x_container_sync_row env b v s = Inl err" and "dbs s (db_file b) = Some db"
  shows "set_x_container_sync_row_error env s b v = Some err"
  using assms by (auto simp: set_x_container_sync_row_def split: option.splits)

lemma set_x_container_sync_row_Inr:
  assumes "set_x_container_sync_row env b v s = Inr s'" and "dbs s (db_file b) = Some db"
  shows "s' = s\<lparr>dbs := (dbs s)(db_file b \<mapsto> set_cursor db v),
                 history := history s @ [CursorWritten (db_file b) v]\<rparr>"
  using assms by (auto simp: set_x_container_sync_row_def set_cursor_def split: option.splits)

text \<open>
  What a run of the row loop does, when the database exists and \<open>sync_row\<close> is its
  cursor: it adds to the history the events of some rows replicated with success and
  written, then at most one more return: of a failed row, or of a row that succeeded
  and whose write the store refused. The ids increase strictly from the cursor on, the
  cursor ends at the last id written, and an exception that ends the loop is one the
  environment gave for the store.
\<close>

lemma row_loop_summary:
  assumes "row_loop env stop_at sync_to sync_key b info c s = (ex, s')"
    and "dbs s (db_file b) = Some db"
    and "x_container_sync_row (db_info db) = c"
  shows "\<exists>succ final.
      history s' = history s @ synced_events (db_file b) succ @ returned_events final \<and>
      length final \<le> 1 \<and>
      (ex = RowFailed \<longleftrightarrow> (\<exists>r. final = [(r, False)])) \<and>
      (\<forall>r. final = [(r, True)] \<longrightarrow>
         (\<exists>e st. ex = Raised e \<and> set_x_container_sync_row_error env st b (ROWID r) = Some e)) \<and>
      sorted_wrt (<) (c # map ROWID succ @ map (\<lambda>a. ROWID (fst a)) final) \<and>
      dbs s' = (dbs s)(db_file b \<mapsto> set_cursor db (last (c # map ROWID succ))) \<and>
      container_syncs s' = container_syncs s \<and> container_skips s' = container_skips s \<and>
      (ex = Deadline \<longrightarrow> \<not> time env (clock s' - 1) < stop_at) \<and>
      (ex = Exhausted \<longrightarrow>
         filter (\<lambda>r. last (c # map ROWID succ) < ROWID r) (db_objects db) = []) \<and>
      (\<forall>e. ex = Raised e \<longrightarrow>
         (\<exists>st start. get_items_since_error env st b start 1 = Some e) \<or>
         (\<exists>st v. set_x_container_sync_row_error env st b v = Some e))"
  using assms
proof (induction "length (filter (\<lambda>r. c < ROWID r) (db_rows b s))" arbitrary: c s db rule: less_induct)
  case less
  let ?s1 = "s\<lparr>clock := Suc (clock s)\<rparr>"
  have db1: "dbs ?s1 (db_file b) = Some db" using less.prems(2) by simp
  have same: "(dbs s)(db_file b \<mapsto> set_cursor db c) = dbs s"
    using less.prems(2,3) by (auto simp: fun_eq_iff set_cursor_def)
  from less.prems(1) show ?case
  proof (cases rule: row_loop_cases)
    case Deadline
    with same show ?thesis
      by (intro exI[of _ "[]"]) (simp add: synced_events_def returned_events_def)
  next
    case (Raised_items err)
    have "get_items_since_error env ?s1 b c 1 = Some err"
      using get_items_since_Inl[OF Raised_items(2) db1] .
    then have "\<exists>st start. get_items_since_error env st b start 1 = Some err" by blast
    with Raised_items same show ?thesis
      by (intro exI[of _ "[]"]) (simp add: synced_events_def returned_events_def)
  next
    case Exhausted
    have "filter (\<lambda>r. c < ROWID r) (db_objects db) = []"
      using get_items_since_Nil[OF Exhausted(2) db1] .
    with Exhausted same show ?thesis
      by (intro exI[of _ "[]"]) (simp add: synced_events_def returned_events_def)
  next
    case (RowFailed row rest s2)
    have lt: "c < ROWID row" using get_items_since_Cons(2)[OF RowFailed(2)] .
    have "same_store ?s1 s2" using RowFailed(3) by (rule container_sync_row_same_store)
    with RowFailed same lt show ?thesis
      by (intro exI[of _ "[]"] exI[of _ "[(row, False)]"])
         (simp add: same_store_def synced_events_def returned_events_def)
  next
    case (Raised_set row rest s2 err)
    let ?s3 = "s2\<lparr>history := history s2 @ [SyncRowReturned row True]\<rparr>"
    have lt: "c < ROWID row" using get_items_since_Cons(2)[OF Raised_set(2)] .
    have st: "same_store ?s1 s2" using Raised_set(3) by (rule container_sync_row_same_store)
    then have db3: "dbs ?s3 (db_file b) = Some db"
      using db1 by (simp add: same_store_def)
    have err: "set_x_container_sync_row_error env ?s3 b (ROWID row) = Some err"
      using set_x_container_sync_row_Inl[OF Raised_set(4) db3] .
    then have e1: "\<exists>e st. ex = Raised e \<and> set_x_container_sync_row_error env st b (ROWID row) = Some e"
      and e2: "\<exists>st v. set_x_container_sync_row_error env st b v = Some err"
      using Raised_set(5) by blast+
    with Raised_set(5,6) same lt st show ?thesis
      by (intro exI[of _ "[]"] exI[of _ "[(row, True)]"])
         (simp add: same_store_def synced_events_def returned_events_def)
  next
    case (Continue row rest s2 s4)
    let ?s3 = "s2\<lparr>history := history s2 @ [SyncRowReturned row True]\<rparr>"
    have lt: "c < ROWID row" using get_items_since_Cons(2)[OF Continue(2)] .
    have st: "same_store ?s1 s2" using Continue(3) by (rule container_sync_row_same_store)
    then have db3: "dbs ?s3 (db_file b) = Some db"
      using db1 by (simp add: same_store_def)
    have s4: "s4 = ?s3\<lparr>dbs := (dbs ?s3)(db_file b \<mapsto> set_cursor db (ROWID row)),
                        history := history ?s3 @ [CursorWritten (db_file b) (ROWID row)]\<rparr>"
      using set_x_container_sync_row_Inr[OF Continue(4) db3] .
    have dbs4: "dbs s4 = (dbs s)(db_file b \<mapsto> set_cursor db (ROWID row))"
      using s4 st by (simp add: same_store_def)
    have "db_rows b ?s1 = db_rows b s" by (simp add: db_rows_def)
    with row_loop_measure[OF Continue(2) Continue(3)[symmetric] Continue(4)]
    have dec: "length (filter (\<lambda>r. ROWID row < ROWID r) (db_rows b s4))
                < length (filter (\<lambda>r. c < ROWID r) (db_rows b s))"
      by simp
    have "dbs s4 (db_file b) = Some (set_cursor db (ROWID row))" using dbs4 by simp
    moreover have "x_container_sync_row (db_info (set_cursor db (ROWID row))) = ROWID row"
      by (simp add: set_cursor_def)
    ultimately obtain succ final where IH:
      "history s' = history s4 @ synced_events (db_file b) succ @ returned_events final"
      "length final \<le> 1"
      "ex = RowFailed \<longleftrightarrow> (\<exists>r. final = [(r, False)])"
      "\<forall>r. final = [(r, True)] \<longrightarrow>
         (\<exists>e st. ex = Raised e \<and> set_x_container_sync_row_error env st b (ROWID r) = Some e)"
      "sorted_wrt (<) (ROWID row # map ROWID succ @ map (\<lambda>a. ROWID (fst a)) final)"
      "dbs s' = (dbs s4)(db_file b \<mapsto>
                 set_cursor (set_cursor db (ROWID row)) (last (ROWID row # map ROWID succ)))"
      "container_syncs s' = container_syncs s4" "container_skips s' = container_skips s4"
      "ex = Deadline \<longrightarrow> \<not> time env (clock s' - 1) < stop_at"
      "ex = Exhausted \<longrightarrow>
         filter (\<lambda>r. last (ROWID row # map ROWID succ) < ROWID r)
           (db_objects (set_cursor db (ROWID row))) = []"
      "\<forall>e. ex = Raised e \<longrightarrow>
         (\<exists>st start. get_items_since_error env st b start 1 = Some e) \<or>
         (\<exists>st v. set_x_container_sync_row_error env st b v = Some e)"
      using less.hyps[OF dec Continue(5)] by blast
    have h4: "history s4 = history s @ synced_events (db_file b) [row]"
      and c4: "container_syncs s4 = container_syncs s" "container_skips s4 = container_skips s"
      using s4 st by (simp_all add: same_store_def synced_events_def)
    have "\<forall>y\<in>set (map ROWID succ @ map (\<lambda>a. ROWID (fst a)) final). ROWID row < y"
      using IH(5) by simp
    then have "\<forall>y\<in>set (map ROWID succ @ map (\<lambda>a. ROWID (fst a)) final). c < y"
      using lt by (meson less_trans)
    then have sorted: "sorted_wrt (<) (c # map ROWID (row # succ) @ map (\<lambda>a. ROWID (fst a)) final)"
      using IH(5) lt by simp
    have hist: "history s' = history s @ synced_events (db_file b) (row # succ) @ returned_events final"
      using IH(1) h4 by (simp add: synced_events_def)
    have dbs': "dbs s' = (dbs s)(db_file b \<mapsto> set_cursor db (last (c # map ROWID (row # succ))))"
      using IH(6) dbs4 by (simp add: set_cursor_def)
    have exh: "ex = Exhausted \<longrightarrow>
         filter (\<lambda>r. last (c # map ROWID (row # succ)) < ROWID r) (db_objects db) = []"
      using IH(10) by (simp add: set_cursor_def)
    show ?thesis
      using hist IH(2,3,4) sorted dbs' IH(7,8,9,11) c4 exh
      by (intro exI[of _ "row # succ"] exI[of _ final]) simp
  qed
qed

subsection \<open>A pass over one container\<close>

lemma container_sync_loop:
  assumes "endswith path ''.db''"
    and "broker_init_error env path = None"
    and "dbs s path = Some db"
    and "\<not> db_deleted db"
    and "scan_metadata (db_metadata db) (None, None) = (Some sync_to, Some sync_key)"
    and "sync_to \<noteq> []" and "sync_key \<noteq> []"
    and "\<not> truthy (validate_sync_to env (rstrip ''/'' sync_to) (allowed_sync_hosts env))"
  shows "container_sync env path s =
     (case row_loop env (float_add env (time env (clock s)) (container_time env))
             (rstrip ''/'' sync_to) sync_key \<lparr>db_file = path\<rparr> (db_info db)
             (x_container_sync_row (db_info db)) (s\<lparr>clock := Suc (clock s)\<rparr>) of
        (Raised err, s2) \<Rightarrow>
          (None, s2\<lparr>container_failures := container_failures s2 + 1,
                     logged := logged s2 @ [ExceptionSyncing path err]\<rparr>)
      | (RowFailed, s2) \<Rightarrow> (None, s2)
      | (Deadline, s2) \<Rightarrow> (None, s2\<lparr>container_syncs := container_syncs s2 + 1\<rparr>)
      | (Exhausted, s2) \<Rightarrow> (None, s2\<lparr>container_syncs := container_syncs s2 + 1\<rparr>))"
  using assms
  by (simp add: container_sync_def container_sync_try_def ContainerBroker_def get_info_def
      is_deleted_def metadata_def truthy_def Let_def split: prod.splits loop_exit.splits)

lemma container_sync_cases [case_names Outside Loop]:
  obtains
    (Outside) "history (snd (container_sync env path s)) = history s"
      "dbs (snd (container_sync env path s)) = dbs s"
      "container_syncs (snd (container_sync env path s)) = container_syncs s"
  | (Loop) db sync_to sync_key where "endswith path ''.db''"
      "broker_init_error env path = None" "dbs s path = Some db" "\<not> db_deleted db"
      "scan_metadata (db_metadata db) (None, None) = (Some sync_to, Some sync_key)"
      "sync_to \<noteq> []" "sync_key \<noteq> []"
      "\<not> truthy (validate_sync_to env (rstrip ''/'' sync_to) (allowed_sync_hosts env))"
proof (cases "endswith path ''.db'' \<and> broker_init_error env path = None \<and>
    (\<exists>db. dbs s path = Some db \<and> \<not> db_deleted db \<and>
      truthy (fst (scan_metadata (db_metadata db) (None, None))) \<and>
      truthy (snd (scan_metadata (db_metadata db) (None, None))) \<and>
      \<not> truthy (validate_sync_to env
           (rstrip ''/'' (case fst (scan_metadata (db_metadata db) (None, None)) of Some v \<Rightarrow> v | None \<Rightarrow> []))
           (allowed_sync_hosts env)))")
  case True
  then obtain db where db: "dbs s path = Some db" "\<not> db_deleted db"
    "truthy (fst (scan_metadata (db_metadata db) (None, None)))"
    "truthy (snd (scan_metadata (db_metadata db) (None, None)))"
    "\<not> truthy (validate_sync_to env
           (rstrip ''/'' (case fst (scan_metadata (db_metadata db) (None, None)) of Some v \<Rightarrow> v | None \<Rightarrow> []))
           (allowed_sync_hosts env))"
    by blast
  from db(3,4) obtain sync_to sync_key where
    sm: "scan_metadata (db_metadata db) (None, None) = (Some sync_to, Some sync_key)"
    and ne: "sync_to \<noteq> []" "sync_key \<noteq> []"
    by (cases "scan_metadata (db_metadata db) (None, None)")
       (auto simp: truthy_def split: option.splits)
  show ?thesis
    using True db(1,2,5) sm ne by (intro Loop[of db sync_to sync_key]) simp_all
next
  case False
  have "history (snd (container_sync env path s)) = history s \<and>
        dbs (snd (container_sync env path s)) = dbs s \<and>
        container_syncs (snd (container_sync env path s)) = container_syncs s"
    using False
    by (auto simp: container_sync_def container_sync_try_def ContainerBroker_def get_info_def
        is_deleted_def metadata_def Let_def
        split: option.splits sum.splits bool.splits prod.splits if_splits)
  then show ?thesis by (intro Outside) simp_all
qed

lemma scan_metadata_sync_to:
  "fst (scan_metadata items (a, b)) = a \<or>
   (\<exists>key value timestamp. (key, value, timestamp) \<in> set items \<and>
      lower key = ''x-container-sync-to'' \<and> fst (scan_metadata items (a, b)) = Some value)"
proof (induction items arbitrary: a b)
  case Nil
  then show ?case by simp
next
  case (Cons item items)
  obtain key v t where item: "item = (key, v, t)" by (cases item)
  show ?case
    using Cons.IH[of "Some v" b] Cons.IH[of a "Some v"] Cons.IH[of a b]
    by (simp add: item) blast
qed

lemma scan_metadata_sync_key:
  "snd (scan_metadata items (a, b)) = b \<or>
   (\<exists>key value timestamp. (key, value, timestamp) \<in> set items \<and>
      lower key = ''x-container-sync-key'' \<and> snd (scan_metadata items (a, b)) = Some value)"
proof (induction items arbitrary: a b)
  case Nil
  then show ?case by simp
next
  case (Cons item items)
  obtain key v t where item: "item = (key, v, t)" by (cases item)
  show ?case
    using Cons.IH[of "Some v" b] Cons.IH[of a "Some v"] Cons.IH[of a b]
    by (simp add: item) blast
qed

lemma missing_sync_metadata_not_truthy:
  assumes "(\<forall>(key, value, timestamp)\<in>set items. lower key = ''x-container-sync-to'' \<longrightarrow> value = []) \<or>
           (\<forall>(key, value, timestamp)\<in>set items. lower key = ''x-container-sync-key'' \<longrightarrow> value = [])"
  shows "\<not> truthy (fst (scan_metadata items (None, None))) \<or>
         \<not> truthy (snd (scan_metadata items (None, None)))"
  using assms scan_metadata_sync_to[of items None None] scan_metadata_sync_key[of items None None]
  by (auto simp: truthy_def split: option.splits)

lemma container_sync_skips:
  assumes "endswith path ''.db''"
    and "broker_init_error env path = None"
    and "dbs s path = Some db"
    and "\<not> db_deleted db"
    and "\<not> truthy (fst (scan_metadata (db_metadata db) (None, None))) \<or>
         \<not> truthy (snd (scan_metadata (db_metadata db) (None, None)))"
  shows "container_sync env path s = (None, s\<lparr>container_skips := container_skips s + 1\<rparr>)"
  using assms
  by (cases "scan_metadata (db_metadata db) (None, None)")
     (auto simp add: container_sync_def container_sync_try_def ContainerBroker_def get_info_def
      is_deleted_def metadata_def)

text \<open>
  A pass that does not reach the row loop leaves \<^verbatim>\<open>container_syncs\<close> as it was.
\<close>

lemma container_syncs_changes_only_through_the_loop:
  "container_syncs (snd (container_sync env path s)) = container_syncs s \<or>
   (\<exists>db sync_to sync_key.
      endswith path ''.db'' \<and> broker_init_error env path = None \<and> dbs s path = Some db \<and>
      \<not> db_deleted db \<and>
      scan_metadata (db_metadata db) (None, None) = (Some sync_to, Some sync_key) \<and>
      sync_to \<noteq> [] \<and> sync_key \<noteq> [] \<and>
      \<not> truthy (validate_sync_to env (rstrip ''/'' sync_to) (allowed_sync_hosts env)))"
  by (cases env path s rule: container_sync_cases) blast+

lemma container_sync_summary:
  "\<exists>succ final.
     history (snd (container_sync env path s)) =
       history s @ synced_events path succ @ returned_events final \<and>
     length final \<le> 1 \<and>
     (\<forall>r. final = [(r, True)] \<longrightarrow>
        (\<exists>e st. set_x_container_sync_row_error env st \<lparr>db_file = path\<rparr> (ROWID r) = Some e)) \<and>
     (case dbs s path of
        None \<Rightarrow> succ = [] \<and> final = [] \<and> dbs (snd (container_sync env path s)) = dbs s
      | Some db \<Rightarrow>
          sorted_wrt (<) (x_container_sync_row (db_info db) # map ROWID succ @
                           map (\<lambda>a. ROWID (fst a)) final) \<and>
          dbs (snd (container_sync env path s)) =
            (dbs s)(path \<mapsto> set_cursor db (last (x_container_sync_row (db_info db) # map ROWID succ))))"
proof (cases env path s rule: container_sync_cases)
  case Outside
  have same: "\<And>db. dbs s path = Some db \<Longrightarrow>
          (dbs s)(path \<mapsto> set_cursor db (x_container_sync_row (db_info db))) = dbs s"
    by (auto simp: fun_eq_iff set_cursor_def)
  show ?thesis
  proof (cases "dbs s path")
    case None
    with Outside show ?thesis
      by (intro exI[of _ "[]"]) (simp add: synced_events_def returned_events_def)
  next
    case (Some db)
    with Outside same[OF Some] show ?thesis
      by (intro exI[of _ "[]"]) (simp add: synced_events_def returned_events_def)
  qed
next
  case (Loop db sync_to sync_key)
  let ?b = "\<lparr>db_file = path\<rparr>"
  let ?s1 = "s\<lparr>clock := Suc (clock s)\<rparr>"
  let ?stop = "float_add env (time env (clock s)) (container_time env)"
  let ?c = "x_container_sync_row (db_info db)"
  obtain ex s2 where loop:
    "row_loop env ?stop (rstrip ''/'' sync_to) sync_key ?b (db_info db) ?c ?s1 = (ex, s2)"
    by (cases "row_loop env ?stop (rstrip ''/'' sync_to) sync_key ?b (db_info db) ?c ?s1")
  have db1: "dbs ?s1 (db_file ?b) = Some db" using Loop(3) by simp
  obtain succ final where
    h: "history s2 = history ?s1 @ synced_events (db_file ?b) succ @ returned_events final"
    and l: "length final \<le> 1"
    and w: "\<forall>r. final = [(r, True)] \<longrightarrow>
         (\<exists>e st. ex = Raised e \<and> set_x_container_sync_row_error env st ?b (ROWID r) = Some e)"
    and so: "sorted_wrt (<) (?c # map ROWID succ @ map (\<lambda>a. ROWID (fst a)) final)"
    and d: "dbs s2 = (dbs ?s1)(db_file ?b \<mapsto> set_cursor db (last (?c # map ROWID succ)))"
    using row_loop_summary[OF loop db1 refl] by (elim exE conjE) (rule that)
  note cl = container_sync_loop[OF Loop]
  have hs: "history (snd (container_sync env path s)) = history s2"
    unfolding cl loop by (cases ex) simp_all
  have ds: "dbs (snd (container_sync env path s)) = dbs s2"
    unfolding cl loop by (cases ex) simp_all
  have w': "\<forall>r. final = [(r, True)] \<longrightarrow>
        (\<exists>e st. set_x_container_sync_row_error env st ?b (ROWID r) = Some e)"
  proof (intro allI impI)
    fix r
    assume "final = [(r, True)]"
    with w obtain e st where "set_x_container_sync_row_error env st ?b (ROWID r) = Some e"
      by (elim allE impE exE conjE)
    then show "\<exists>e st. set_x_container_sync_row_error env st ?b (ROWID r) = Some e"
      by (intro exI)
  qed
  have h': "history (snd (container_sync env path s)) =
       history s @ synced_events path succ @ returned_events final"
    using hs h by simp
  have d': "dbs (snd (container_sync env path s)) =
            (dbs s)(path \<mapsto> set_cursor db (last (?c # map ROWID succ)))"
    using ds d by simp
  show ?thesis
    apply (rule exI[of _ succ], rule exI[of _ final])
    apply (intro conjI)
       apply (rule h')
      apply (rule l)
     apply (rule w')
    using so d' Loop(3) apply simp
    done
qed

lemma attempts_append: "attempts (xs @ ys) = attempts xs @ attempts ys"
  by (induction xs rule: attempts.induct) simp_all

lemma attempts_synced_events: "attempts (synced_events path rows) = map (\<lambda>r. (r, True)) rows"
  by (induction rows) (simp_all add: synced_events_def)

lemma attempts_returned_events: "attempts (returned_events tries) = tries"
  by (induction tries) (auto simp: returned_events_def)

lemma final_cases:
  assumes "length final \<le> 1"
  obtains (none) "final = []" | (failed) r where "final = [(r, False)]"
    | (unwritten) r where "final = [(r, True)]"
proof (cases final)
  case Nil
  then show ?thesis by (rule none)
next
  case (Cons a rest)
  with assms have rest: "rest = []" by simp
  obtain r ok where a: "a = (r, ok)" by (cases a)
  show ?thesis
  proof (cases ok)
    case True
    with Cons rest a show ?thesis by (intro unwritten[of r]) simp
  next
    case False
    with Cons rest a show ?thesis by (intro failed[of r]) simp
  qed
qed

subsection \<open>Stripping characters\<close>

text \<open>
  \<^verbatim>\<open>s.strip(chars)\<close> removes a prefix and a suffix made of the characters of \<open>chars\<close>,
  and what is left neither starts nor ends with one of them.
\<close>

lemma rstrip_spec:
  "\<exists>post. s = rstrip chars s @ post \<and> set post \<subseteq> set chars \<and>
          (rstrip chars s = [] \<or> last (rstrip chars s) \<notin> set chars)"
proof -
  let ?P = "\<lambda>c. c \<in> set chars"
  have "rev s = takeWhile ?P (rev s) @ dropWhile ?P (rev s)" by simp
  then have "s = rev (dropWhile ?P (rev s)) @ rev (takeWhile ?P (rev s))"
    by (metis rev_append rev_rev_ident)
  moreover have "set (rev (takeWhile ?P (rev s))) \<subseteq> set chars"
    by (auto dest: set_takeWhileD)
  moreover have "dropWhile ?P (rev s) \<noteq> [] \<Longrightarrow> last (rev (dropWhile ?P (rev s))) \<notin> set chars"
    using hd_dropWhile[of ?P "rev s"] by (simp add: last_rev)
  ultimately show ?thesis
    unfolding rstrip_def by blast
qed

lemma strip_spec:
  "\<exists>pre post. s = pre @ strip chars s @ post \<and> set pre \<subseteq> set chars \<and> set post \<subseteq> set chars \<and>
     (strip chars s = [] \<or> (hd (strip chars s) \<notin> set chars \<and> last (strip chars s) \<notin> set chars))"
proof -
  let ?P = "\<lambda>c. c \<in> set chars"
  let ?d = "dropWhile ?P s"
  obtain post where post: "?d = rstrip chars ?d @ post" "set post \<subseteq> set chars"
    "rstrip chars ?d = [] \<or> last (rstrip chars ?d) \<notin> set chars"
    using rstrip_spec[of ?d chars] by blast
  have s: "s = takeWhile ?P s @ strip chars s @ post"
    using post(1) by (simp add: strip_def)
  have pre: "set (takeWhile ?P s) \<subseteq> set chars"
    by (auto dest: set_takeWhileD)
  have "hd (strip chars s) \<notin> set chars" if "strip chars s \<noteq> []"
  proof -
    from that have ne: "rstrip chars ?d \<noteq> []" by (simp add: strip_def)
    then have "?d \<noteq> []" using post(1) by (metis append_is_Nil_conv)
    then have "hd ?d \<notin> set chars" using hd_dropWhile[of ?P s] by simp
    moreover have "hd ?d = hd (rstrip chars ?d)"
      using post(1) ne by (metis hd_append2)
    ultimately show ?thesis by (simp add: strip_def)
  qed
  with s pre post(2,3) show ?thesis
    unfolding strip_def by blast
qed

subsection \<open>What the adapter does keep\<close>

text \<open>
  A \<^verbatim>\<open>read\<close> with a size that is not negative returns at most that many bytes. When
  no chunk is longer than the size asked for, as many reads as there are chunks return
  the chunks one by one, and leave \<^verbatim>\<open>_chunk\<close> as it was.
\<close>

lemma read_at_most_size:
  "0 \<le> sz \<Longrightarrow> int (length (fst (read sz f))) \<le> sz"
  by (auto simp: read_def Let_def split: list.splits)

lemma reads_chunks_that_fit:
  assumes "\<forall>c\<in>set chunks. int (length c) \<le> sz"
  shows "reads (replicate (length chunks) sz) \<lparr>iterator = chunks, priv_chunk = p\<rparr>
           = (chunks, \<lparr>iterator = [], priv_chunk = p\<rparr>)"
  using assms
proof (induction chunks)
  case Nil
  then show ?case by simp
next
  case (Cons c chunks)
  then have "0 \<le> sz" by (auto dest: order_trans[rotated])
  with Cons show ?case
    by (auto simp: read_def)
qed

theorem read_at_most_size_witness:
  "(0::int) \<le> 4 \<and> int (length (fst (read 4 (Iter2FileLikeObject_init [''abcdef''])))) \<le> 4"
  using read_at_most_size [of 4 "Iter2FileLikeObject_init [''abcdef'']"]
  by simp

theorem reads_chunks_that_fit_witness:
  "list_all (\<lambda>c. int (length c) \<le> 4) [''ab'', ''cdef''] \<and>
   reads [4, 4] \<lparr>iterator = [''ab'', ''cdef''], priv_chunk = []\<rparr>
     = ([''ab'', ''cdef''], \<lparr>iterator = [], priv_chunk = []\<rparr>)"
  using reads_chunks_that_fit [of "[''ab'', ''cdef'']" 4 "[]"]
  by simp

subsection \<open>When the broker opens\<close>

text \<open>
  When the constructor \<^verbatim>\<open>ContainerBroker(path)\<close> does not raise, \<^verbatim>\<open>container_sync\<close>
  returns to its caller: every exception of the pass is caught by its handler.
\<close>

lemma container_sync_returns_when_broker_opens:
  "broker_init_error env path = None \<Longrightarrow> fst (container_sync env path s) = None"
  by (auto simp: container_sync_def container_sync_try_def ContainerBroker_def Let_def
      split: option.splits sum.splits bool.splits prod.splits loop_exit.splits if_splits)

theorem container_sync_returns_when_broker_opens_witness:
  "broker_init_error env0 ''c.db'' = None \<and> fst (container_sync env0 ''c.db'' s0) = None"
  using container_sync_returns_when_broker_opens [of env0 "''c.db''" s0]
  by (simp add: env0_def)

section \<open>The claims\<close>







text \<open>
  C3 (\<^verbatim>\<open>container_sync\<close> never raises). The code raises where the constructor
  \<^verbatim>\<open>ContainerBroker(path)\<close> raises: the handler counts the failure and then reads
  \<^verbatim>\<open>broker.db_file\<close> for the log line, but \<^verbatim>\<open>broker\<close> was never bound. An
  \<^verbatim>\<open>UnboundLocalError\<close> reaches the caller and nothing is logged.
\<close>

theorem container_sync_raises_when_broker_fails:
  "container_sync (env0\<lparr>broker_init_error := (\<lambda>path. Some (Exception ''cannot open''))\<rparr>) ''c.db'' s0
     = (Some (UnboundLocalError ''broker''), s0\<lparr>container_failures := 1\<rparr>) \<and>
   logged (snd (container_sync
      (env0\<lparr>broker_init_error := (\<lambda>path. Some (Exception ''cannot open''))\<rparr>) ''c.db'' s0)) = []"
  by (simp add: container_sync_def container_sync_try_def endswith_def ContainerBroker_def
      scenario_defs)

text \<open>
  C4 (the adapter is a faithful read-once stream). The code loses bytes: on the single
  chunk \<open>abcdef\<close>, \<^verbatim>\<open>read(4)\<close> returns \<open>abcd\<close> and saves \<open>ef\<close> in \<^verbatim>\<open>_chunk\<close>; the
  next \<^verbatim>\<open>read(4)\<close> does not look at \<^verbatim>\<open>_chunk\<close>, finds the iterator exhausted and
  returns the empty string, which is end-of-stream. The reads returned \<open>abcd\<close>, not
  \<open>abcdef\<close>, and \<open>ef\<close> is still in \<^verbatim>\<open>_chunk\<close>.
\<close>

theorem read_drops_remainder:
  "reads [4, 4] (Iter2FileLikeObject_init [''abcdef'']) =
     ([''abcd'', ''''], \<lparr>iterator = [], priv_chunk = ''ef''\<rparr>)
   \<and> concat (fst (reads [4, 4] (Iter2FileLikeObject_init [''abcdef''])))
       \<noteq> concat [''abcdef'']"
  by (simp add: read_def Iter2FileLikeObject_init_def)

text \<open>
  C5 (rows in order, a failure halts the pass). In every pass the history only grows,
  and in what the pass adds, the rows handed to \<^verbatim>\<open>container_sync_row\<close> have strictly
  increasing ids and every call but the last one returned \<^verbatim>\<open>True\<close> (so no row is tried
  after a failed one). When the pass adds nothing, or does not end on a return with
  \<^verbatim>\<open>True\<close> (it ends on a failed row, or on the write of the cursor), the cursor ends at
  the id of the last row that succeeded, or where it was if none did. The witness is
  the pass over the pending rows 5, 6, 7 where row 6 fails: rows 5 and 6 are tried, row
  7 is not, and the cursor ends at 5.
\<close>

theorem rows_attempted_in_order_until_failure:
  "(let s' = snd (container_sync env path s);
        new = drop (length (history s)) (history s');
        tried = attempts new
    in history s' = history s @ new \<and>
       sorted_wrt (<) (map (\<lambda>a. ROWID (fst a)) tried) \<and>
       list_all snd (butlast tried) \<and>
       (new = [] \<or> (\<forall>r. last new \<noteq> SyncRowReturned r True) \<longrightarrow>
          persisted_cursor s' path =
            map_option (\<lambda>c. last (c # map (\<lambda>a. ROWID (fst a)) (filter snd tried)))
              (persisted_cursor s path)))"
proof -
  let ?s' = "snd (container_sync env path s)"
  obtain succ final where
    h: "history ?s' = history s @ synced_events path succ @ returned_events final"
    and l: "length final \<le> 1"
    and c: "case dbs s path of
        None \<Rightarrow> succ = [] \<and> final = [] \<and> dbs ?s' = dbs s
      | Some db \<Rightarrow>
          sorted_wrt (<) (x_container_sync_row (db_info db) # map ROWID succ @
                           map (\<lambda>a. ROWID (fst a)) final) \<and>
          dbs ?s' =
            (dbs s)(path \<mapsto> set_cursor db (last (x_container_sync_row (db_info db) # map ROWID succ)))"
    using container_sync_summary[of env path s] by (elim exE conjE) (rule that)
  define new where "new = drop (length (history s)) (history ?s')"
  define tried where "tried = attempts new"
  have new: "new = synced_events path succ @ returned_events final"
    by (simp add: new_def h)
  have ext: "history ?s' = history s @ new"
    by (simp add: new h)
  have tried: "tried = map (\<lambda>r. (r, True)) succ @ final"
    by (simp add: tried_def new attempts_append attempts_synced_events attempts_returned_events)
  have ids: "map (\<lambda>a. ROWID (fst a)) tried = map ROWID succ @ map (\<lambda>a. ROWID (fst a)) final"
    by (simp add: tried comp_def)
  have sorted: "sorted_wrt (<) (map (\<lambda>a. ROWID (fst a)) tried)"
    unfolding ids using c by (cases "dbs s path") simp_all
  have bl: "list_all snd (butlast tried)"
    using l by (cases rule: final_cases)
      (auto simp: tried list_all_iff butlast_append dest: in_set_butlastD)
  have cur0: "persisted_cursor ?s' path =
         map_option (\<lambda>c. last (c # map ROWID succ)) (persisted_cursor s path)"
    using c by (cases "dbs s path") (simp_all add: persisted_cursor_def set_cursor_def)
  have cur: "persisted_cursor ?s' path =
            map_option (\<lambda>c. last (c # map (\<lambda>a. ROWID (fst a)) (filter snd tried)))
              (persisted_cursor s path)"
    if ok: "new = [] \<or> (\<forall>r. last new \<noteq> SyncRowReturned r True)"
  proof -
    have "filter snd final = []"
      using l
    proof (cases rule: final_cases)
      case (unwritten r)
      then have "new \<noteq> []" and "last new = SyncRowReturned r True"
        by (simp_all add: new returned_events_def)
      with ok show ?thesis by blast
    qed simp_all
    then have "map (\<lambda>a. ROWID (fst a)) (filter snd tried) = map ROWID succ"
      by (simp add: tried comp_def filter_map)
    with cur0 show ?thesis by simp
  qed
  show ?thesis
    unfolding Let_def new_def[symmetric] tried_def[symmetric]
    using ext sorted bl cur by (intro conjI impI)
qed

theorem rows_attempted_in_order_until_failure_witness:
  "attempts (history (snd (container_sync env0 ''c.db'' s0))) = [(row5, True), (row6, False)] \<and>
   row7 \<notin> set (map fst (attempts (history (snd (container_sync env0 ''c.db'' s0))))) \<and>
   get_items_since env0 \<lparr>db_file = ''c.db''\<rparr> 6 1 (snd (container_sync env0 ''c.db'' s0))
     = Inr [row7] \<and>
   last (history (snd (container_sync env0 ''c.db'' s0))) = SyncRowReturned row6 False \<and>
   persisted_cursor (snd (container_sync env0 ''c.db'' s0)) ''c.db'' = Some 5"
  using rows_attempted_in_order_until_failure [of env0 "''c.db''" s0]
  by (simp add: persisted_cursor_def model_defs scenario_defs)

text \<open>
  C6 (a 404 on DELETE is success). For a deleted row, when \<^verbatim>\<open>delete_object\<close> raises a
  \<^verbatim>\<open>ClientException\<close> with status 404, \<^verbatim>\<open>container_sync_row\<close> returns \<^verbatim>\<open>True\<close> in the
  state it reaches when the DELETE succeeds: the call recorded and \<^verbatim>\<open>container_deletes\<close>
  incremented. Any other exception of the DELETE makes it return \<^verbatim>\<open>False\<close>, with
  \<^verbatim>\<open>container_failures\<close> incremented, one line logged and \<^verbatim>\<open>container_deletes\<close> unchanged.
\<close>

theorem delete_404_counts_as_success:
  "deleted row \<Longrightarrow>
   (let headers = [''X-Timestamp'' \<mapsto> created_at row, ''X-Container-Sync-Key'' \<mapsto> sync_key];
        result = delete_object env (calls s) sync_to (name row) headers;
        s_deleted = s\<lparr>calls := calls s @ [DeleteObject sync_to (name row) headers],
                      container_deletes := container_deletes s + 1\<rparr>;
        (ok, s') = container_sync_row env row sync_to sync_key broker info s
    in (result = Some (ClientException 404) \<or> result = None \<longrightarrow> ok \<and> s' = s_deleted) \<and>
       (result \<noteq> Some (ClientException 404) \<and> result \<noteq> None \<longrightarrow>
          \<not> ok \<and> container_failures s' = container_failures s + 1 \<and>
          container_deletes s' = container_deletes s \<and>
          calls s' = calls s @ [DeleteObject sync_to (name row) headers] \<and>
          length (logged s') = length (logged s) + 1))"
  by (auto simp: container_sync_row_def container_sync_row_try_def Let_def
      split: option.splits exn.splits)

theorem delete_404_counts_as_success_witness:
  "deleted row6 \<and>
   delete_object (env0\<lparr>delete_object := (\<lambda>h sync_to n hdrs. Some (ClientException 404))\<rparr>) (calls s0)
     ''http://10.0.0.5/v1/AUTH_x/dest'' (name row6)
     [''X-Timestamp'' \<mapsto> created_at row6, ''X-Container-Sync-Key'' \<mapsto> ''secret'']
     = Some (ClientException 404) \<and>
   fst (container_sync_row (env0\<lparr>delete_object := (\<lambda>h sync_to n hdrs. Some (ClientException 404))\<rparr>)
          row6 ''http://10.0.0.5/v1/AUTH_x/dest'' ''secret'' \<lparr>db_file = ''c.db''\<rparr> info0 s0) \<and>
   container_deletes (snd (container_sync_row
          (env0\<lparr>delete_object := (\<lambda>h sync_to n hdrs. Some (ClientException 404))\<rparr>)
          row6 ''http://10.0.0.5/v1/AUTH_x/dest'' ''secret'' \<lparr>db_file = ''c.db''\<rparr> info0 s0)) = 1 \<and>
   container_failures (snd (container_sync_row
          (env0\<lparr>delete_object := (\<lambda>h sync_to n hdrs. Some (ClientException 404))\<rparr>)
          row6 ''http://10.0.0.5/v1/AUTH_x/dest'' ''secret'' \<lparr>db_file = ''c.db''\<rparr> info0 s0)) = 0 \<and>
   delete_object env0 (calls s0) ''http://10.0.0.5/v1/AUTH_x/dest'' (name row6)
     [''X-Timestamp'' \<mapsto> created_at row6, ''X-Container-Sync-Key'' \<mapsto> ''secret'']
     = Some (ClientException 500) \<and>
   \<not> fst (container_sync_row env0 row6 ''http://10.0.0.5/v1/AUTH_x/dest'' ''secret''
            \<lparr>db_file = ''c.db''\<rparr> info0 s0) \<and>
   container_failures (snd (container_sync_row env0 row6 ''http://10.0.0.5/v1/AUTH_x/dest''
            ''secret'' \<lparr>db_file = ''c.db''\<rparr> info0 s0)) = 1"
proof -
  have d: "deleted row6" by (simp add: row6_def)
  from delete_404_counts_as_success [OF d,
      of "''secret''" "env0\<lparr>delete_object := (\<lambda>h sync_to n hdrs. Some (ClientException 404))\<rparr>"
         s0 "''http://10.0.0.5/v1/AUTH_x/dest''" "\<lparr>db_file = ''c.db''\<rparr>" info0]
    delete_404_counts_as_success [OF d, of "''secret''" env0
         s0 "''http://10.0.0.5/v1/AUTH_x/dest''" "\<lparr>db_file = ''c.db''\<rparr>" info0]
  show ?thesis
    using d by (simp add: Let_def s0_def env0_def row6_def split: prod.splits)
qed

text \<open>
  C7 (the headers of the PUT). For a row that is not deleted, when the ring answers and
  the loop over the nodes ends with the headers and the body of a GET, the last call
  \<^verbatim>\<open>container_sync_row\<close> makes is the PUT of that body with the headers
  \<open>put_headers headers row sync_key\<close>. They hold neither \<open>date\<close> nor \<open>last-modified\<close>;
  \<open>etag\<close> is there exactly when it was fetched, with the double quotes at both ends
  stripped (lemma \<open>strip_spec\<close> says what \<open>strip\<close> removes); \<open>X-Timestamp\<close> is the row's
  \<^verbatim>\<open>created_at\<close> and \<open>X-Container-Sync-Key\<close> the sync key.
\<close>

theorem put_headers_sanitized:
  assumes "\<not> deleted row"
    and "get_nodes env (calls s) (account info) (container info) (name row) = Inr (part, nodes)"
    and "direct_get_loop env part info row
           (shuffle (random_index env (calls s @ [GetNodes (account info) (container info) (name row)])) nodes)
           None None
           (s\<lparr>calls := calls s @ [GetNodes (account info) (container info) (name row)]\<rparr>)
         = (Inr (headers, body), s2)"
  shows "(let s' = snd (container_sync_row env row sync_to sync_key broker info s);
              sent = put_headers headers row sync_key
          in calls s' = calls s2 @ [PutObject sync_to (name row) sent (Iter2FileLikeObject_init body)] \<and>
             sent ''date'' = None \<and>
             sent ''last-modified'' = None \<and>
             sent ''etag'' = map_option (strip [CHR 0x22]) (headers ''etag'') \<and>
             sent ''X-Timestamp'' = Some (created_at row) \<and>
             sent ''X-Container-Sync-Key'' = Some sync_key)"
proof -
  have "calls (snd (container_sync_row env row sync_to sync_key broker info s))
          = calls s2 @ [PutObject sync_to (name row) (put_headers headers row sync_key) (Iter2FileLikeObject_init body)]"
    using assms
    by (simp add: container_sync_row_def container_sync_row_try_def Let_def
        split: option.splits exn.splits)
  moreover have "put_headers headers row sync_key ''date'' = None"
    and "put_headers headers row sync_key ''last-modified'' = None"
    and "put_headers headers row sync_key ''etag'' = map_option (strip [CHR 0x22]) (headers ''etag'')"
    and "put_headers headers row sync_key ''X-Timestamp'' = Some (created_at row)"
    and "put_headers headers row sync_key ''X-Container-Sync-Key'' = Some sync_key"
    by (simp_all add: put_headers_def Let_def split: option.splits)
  ultimately show ?thesis
    by (simp add: Let_def)
qed

theorem put_headers_sanitized_witness:
  "\<not> deleted row5 \<and>
   get_nodes env0 (calls s0) (account info0) (container info0) (name row5) = Inr (1, [''n1'', ''n2'']) \<and>
   fetched_headers ''date'' \<noteq> None \<and> fetched_headers ''last-modified'' \<noteq> None \<and>
   fetched_headers ''etag'' = Some ([CHR 0x22] @ ''abc'' @ [CHR 0x22]) \<and>
   (case last (calls (snd (container_sync_row env0 row5 ''http://10.0.0.5/v1/AUTH_x/dest'' ''secret''
                              \<lparr>db_file = ''c.db''\<rparr> info0 s0))) of
      PutObject sync_to obj sent contents \<Rightarrow>
        sent ''date'' = None \<and> sent ''last-modified'' = None \<and> sent ''etag'' = Some ''abc'' \<and>
        sent ''X-Timestamp'' = Some ''1400000000.00000'' \<and>
        sent ''X-Container-Sync-Key'' = Some ''secret'' \<and>
        contents = \<lparr>iterator = [''hello''], priv_chunk = []\<rparr>
    | _ \<Rightarrow> False)"
proof -
  let ?get = "GetNodes (account info0) (container info0) (name row5)"
  let ?s2 = "s0\<lparr>calls := [?get, DirectGetObject ''n1'' 1 (account info0) (container info0) (name row5),
                             DirectGetObject ''n2'' 1 (account info0) (container info0) (name row5)]\<rparr>"
  have h1: "\<not> deleted row5" by (simp add: row5_def)
  have h2: "get_nodes env0 (calls s0) (account info0) (container info0) (name row5)
              = Inr (1, [''n1'', ''n2''])"
    by (simp add: env0_def)
  have h3: "direct_get_loop env0 1 info0 row5
              (shuffle (random_index env0 (calls s0 @ [?get])) [''n1'', ''n2'']) None None
              (s0\<lparr>calls := calls s0 @ [?get]\<rparr>)
            = (Inr (fetched_headers, [''hello'']), ?s2)"
    by (simp add: shuffle_def env0_def s0_def Let_def)
  from put_headers_sanitized [OF h1 h2 h3, of "''http://10.0.0.5/v1/AUTH_x/dest''" "''secret''"
      "\<lparr>db_file = ''c.db''\<rparr>"]
  show ?thesis
    using h1 h2
    by (simp add: Let_def fetched_headers_def strip_def rstrip_def row5_def
        Iter2FileLikeObject_init_def)
qed

text \<open>
  C8 (no sync metadata: a skip), as amended. For a container database that is not
  deleted (its path ends in \<open>.db\<close> and the broker opens it) and whose metadata, keys
  compared in lower case, gives no \<open>x-container-sync-to\<close> or no \<open>x-container-sync-key\<close>
  that is not empty, \<^verbatim>\<open>container_sync\<close> returns with \<^verbatim>\<open>container_skips\<close> incremented by
  one and nothing else changed: no call to a collaborator, no write of the cursor, no
  other counter, no log line.
\<close>

theorem missing_sync_metadata_skips:
  assumes "endswith path ''.db''"
    and "broker_init_error env path = None"
    and "dbs s path = Some db"
    and "\<not> db_deleted db"
    and "(\<forall>(key, value, timestamp)\<in>set (db_metadata db).
            lower key = ''x-container-sync-to'' \<longrightarrow> value = []) \<or>
         (\<forall>(key, value, timestamp)\<in>set (db_metadata db).
            lower key = ''x-container-sync-key'' \<longrightarrow> value = [])"
  shows "container_sync env path s = (None, s\<lparr>container_skips := container_skips s + 1\<rparr>)"
  using container_sync_skips[OF assms(1-4) missing_sync_metadata_not_truthy[OF assms(5)]] .

theorem missing_sync_metadata_skips_witness:
  "endswith ''c.db'' ''.db'' \<and> broker_init_error env0 ''c.db'' = None \<and>
   \<not> db_deleted (db0\<lparr>db_metadata := [(''X-Container-Sync-To'', ''http://10.0.0.5/v1/AUTH_x/dest'', ''1''),
                                       (''x-container-sync-KEY'', [], ''2'')]\<rparr>) \<and>
   list_all (\<lambda>(key, value, timestamp). lower key \<noteq> ''x-container-sync-key'' \<or> value = [])
     [(''X-Container-Sync-To'', ''http://10.0.0.5/v1/AUTH_x/dest'', ''1''),
      (''x-container-sync-KEY'', [], ''2'')] \<and>
   container_sync env0 ''c.db''
     (s0\<lparr>dbs := [''c.db'' \<mapsto> db0\<lparr>db_metadata :=
             [(''X-Container-Sync-To'', ''http://10.0.0.5/v1/AUTH_x/dest'', ''1''),
              (''x-container-sync-KEY'', [], ''2'')]\<rparr>]\<rparr>)
     = (None, s0\<lparr>dbs := [''c.db'' \<mapsto> db0\<lparr>db_metadata :=
             [(''X-Container-Sync-To'', ''http://10.0.0.5/v1/AUTH_x/dest'', ''1''),
              (''x-container-sync-KEY'', [], ''2'')]\<rparr>],
                  container_skips := 1\<rparr>)"
proof -
  let ?items = "[(''X-Container-Sync-To'', ''http://10.0.0.5/v1/AUTH_x/dest'', ''1''),
                 (''x-container-sync-KEY'', [], ''2'')]"
  let ?db = "db0\<lparr>db_metadata := ?items\<rparr>"
  let ?s = "s0\<lparr>dbs := [''c.db'' \<mapsto> ?db]\<rparr>"
  have h: "endswith ''c.db'' ''.db''" "broker_init_error env0 ''c.db'' = None"
    "dbs ?s ''c.db'' = Some ?db" "\<not> db_deleted ?db"
    by (simp_all add: endswith_def env0_def db0_def)
  have k: "(\<forall>(key, value, timestamp)\<in>set (db_metadata ?db).
              lower key = ''x-container-sync-to'' \<longrightarrow> value = []) \<or>
           (\<forall>(key, value, timestamp)\<in>set (db_metadata ?db).
              lower key = ''x-container-sync-key'' \<longrightarrow> value = [])"
    by (simp add: lower_def lower_char_def)
  from missing_sync_metadata_skips [OF h k] h show ?thesis
    by (simp add: s0_def lower_def lower_char_def)
qed

text \<open>
  The claim as stated fails on a deleted container: the database is marked deleted and
  has no sync metadata, and \<^verbatim>\<open>container_sync\<close> returns without counting a skip.
\<close>

theorem deleted_container_is_not_skipped:
  "scan_metadata (db_metadata (db0\<lparr>db_deleted := True, db_metadata := []\<rparr>)) (None, None)
     = (None, None) \<and>
   container_sync env0 ''c.db'' (s0\<lparr>dbs := [''c.db'' \<mapsto> db0\<lparr>db_deleted := True, db_metadata := []\<rparr>]\<rparr>)
     = (None, s0\<lparr>dbs := [''c.db'' \<mapsto> db0\<lparr>db_deleted := True, db_metadata := []\<rparr>]\<rparr>) \<and>
   container_skips (snd (container_sync env0 ''c.db''
       (s0\<lparr>dbs := [''c.db'' \<mapsto> db0\<lparr>db_deleted := True, db_metadata := []\<rparr>]\<rparr>))) = 0"
  by (simp add: container_sync_def container_sync_try_def endswith_def ContainerBroker_def
      get_info_def is_deleted_def scenario_defs)

text \<open>
  C9 (an invalid sync target: a failure), as amended. For a container database that is
  not deleted (its path ends in \<open>.db\<close> and the broker opens it), with both sync values
  set and not empty, whose target, trailing slashes stripped, is refused by
  \<^verbatim>\<open>validate_sync_to\<close> with a reason, \<^verbatim>\<open>container_sync\<close> returns with the reason logged
  and \<^verbatim>\<open>container_failures\<close> incremented by one, and nothing else changed: no call to a
  collaborator, no write of the cursor.
\<close>

theorem invalid_sync_to_fails:
  assumes "endswith path ''.db''"
    and "broker_init_error env path = None"
    and "dbs s path = Some db"
    and "\<not> db_deleted db"
    and "scan_metadata (db_metadata db) (None, None) = (Some sync_to, Some sync_key)"
    and "sync_to \<noteq> []" and "sync_key \<noteq> []"
    and "validate_sync_to env (rstrip ''/'' sync_to) (allowed_sync_hosts env) = Some err"
    and "err \<noteq> []"
  shows "container_sync env path s =
           (None, s\<lparr>logged := logged s @ [InfoValidateSyncTo path (Some err)],
                     container_failures := container_failures s + 1\<rparr>)"
  using assms
  by (simp add: container_sync_def container_sync_try_def ContainerBroker_def get_info_def
      is_deleted_def metadata_def truthy_def)

theorem invalid_sync_to_fails_witness:
  "endswith ''c.db'' ''.db'' \<and> broker_init_error env0 ''c.db'' = None \<and>
   \<not> db_deleted (db0\<lparr>db_metadata := [(''x-container-sync-to'', ''http://evil.example/v1/a/c//'', ''1''),
                                       (''x-container-sync-key'', ''secret'', ''1'')]\<rparr>) \<and>
   validate_sync_to env0 (rstrip ''/'' ''http://evil.example/v1/a/c//'') (allowed_sync_hosts env0)
     = Some ''Invalid host'' \<and>
   container_sync env0 ''c.db''
     (s0\<lparr>dbs := [''c.db'' \<mapsto> db0\<lparr>db_metadata :=
             [(''x-container-sync-to'', ''http://evil.example/v1/a/c//'', ''1''),
              (''x-container-sync-key'', ''secret'', ''1'')]\<rparr>]\<rparr>)
     = (None, s0\<lparr>dbs := [''c.db'' \<mapsto> db0\<lparr>db_metadata :=
             [(''x-container-sync-to'', ''http://evil.example/v1/a/c//'', ''1''),
              (''x-container-sync-key'', ''secret'', ''1'')]\<rparr>],
                  logged := [InfoValidateSyncTo ''c.db'' (Some ''Invalid host'')],
                  container_failures := 1\<rparr>)"
proof -
  let ?items = "[(''x-container-sync-to'', ''http://evil.example/v1/a/c//'', ''1''),
                 (''x-container-sync-key'', ''secret'', ''1'')]"
  let ?db = "db0\<lparr>db_metadata := ?items\<rparr>"
  let ?s = "s0\<lparr>dbs := [''c.db'' \<mapsto> ?db]\<rparr>"
  have h: "endswith ''c.db'' ''.db''" "broker_init_error env0 ''c.db'' = None"
    "dbs ?s ''c.db'' = Some ?db" "\<not> db_deleted ?db"
    "scan_metadata (db_metadata ?db) (None, None)
       = (Some ''http://evil.example/v1/a/c//'', Some ''secret'')"
    "''http://evil.example/v1/a/c//'' \<noteq> []" "''secret'' \<noteq> []"
    "validate_sync_to env0 (rstrip ''/'' ''http://evil.example/v1/a/c//'') (allowed_sync_hosts env0)
       = Some ''Invalid host''"
    "''Invalid host'' \<noteq> []"
    by (simp_all add: endswith_def env0_def db0_def lower_def lower_char_def rstrip_def)
  from invalid_sync_to_fails [OF h] h show ?thesis
    by (simp add: s0_def)
qed

text \<open>
  The claim as stated fails on two containers whose sync target \<^verbatim>\<open>validate_sync_to\<close>
  refuses. The first is marked deleted: \<^verbatim>\<open>container_sync\<close> returns with nothing counted
  and nothing logged. The second is not deleted and has no sync key: it is counted as
  a skip, not as a failure.
\<close>

theorem invalid_target_without_failure:
  "validate_sync_to env0 (rstrip ''/'' ''http://evil.example/v1/a/c'') (allowed_sync_hosts env0)
     = Some ''Invalid host'' \<and>
   container_sync env0 ''c.db''
     (s0\<lparr>dbs := [''c.db'' \<mapsto> db0\<lparr>db_deleted := True, db_metadata :=
             [(''x-container-sync-to'', ''http://evil.example/v1/a/c'', ''1''),
              (''x-container-sync-key'', ''secret'', ''1'')]\<rparr>]\<rparr>)
     = (None, s0\<lparr>dbs := [''c.db'' \<mapsto> db0\<lparr>db_deleted := True, db_metadata :=
             [(''x-container-sync-to'', ''http://evil.example/v1/a/c'', ''1''),
              (''x-container-sync-key'', ''secret'', ''1'')]\<rparr>]\<rparr>) \<and>
   container_sync env0 ''c.db''
     (s0\<lparr>dbs := [''c.db'' \<mapsto> db0\<lparr>db_metadata :=
             [(''x-container-sync-to'', ''http://evil.example/v1/a/c'', ''1'')]\<rparr>]\<rparr>)
     = (None, s0\<lparr>dbs := [''c.db'' \<mapsto> db0\<lparr>db_metadata :=
             [(''x-container-sync-to'', ''http://evil.example/v1/a/c'', ''1'')]\<rparr>],
                  container_skips := 1\<rparr>)"
  by (simp add: container_sync_def container_sync_try_def endswith_def ContainerBroker_def
      get_info_def is_deleted_def metadata_def rstrip_def truthy_def lower_def lower_char_def
      scenario_defs)

text \<open>
  C10 (an empty node list). For a row that is not deleted, when the ring returns no
  node, \<^verbatim>\<open>container_sync_row\<close> returns \<^verbatim>\<open>False\<close> with \<^verbatim>\<open>container_failures\<close> incremented
  by one: the \<^verbatim>\<open>else\<close> of the loop reads the loop variable \<^verbatim>\<open>node\<close>, which was never
  bound, and the \<^verbatim>\<open>UnboundLocalError\<close> is caught and logged by the handler for
  \<^verbatim>\<open>Exception\<close>. Only the lookup in the ring was called.
\<close>

theorem empty_node_list_fails_row:
  assumes "\<not> deleted row"
    and "get_nodes env (calls s) (account info) (container info) (name row) = Inr (part, [])"
  shows "container_sync_row env row sync_to sync_key broker info s =
           (False, s\<lparr>calls := calls s @ [GetNodes (account info) (container info) (name row)],
                      logged := logged s @ [ExceptionSyncingRow (db_file broker) row (UnboundLocalError ''node'')],
                      container_failures := container_failures s + 1\<rparr>)"
  using assms
  by (simp add: container_sync_row_def container_sync_row_try_def shuffle_def Let_def)

theorem empty_node_list_fails_row_witness:
  "\<not> deleted row5 \<and>
   get_nodes (env0\<lparr>get_nodes := (\<lambda>h a c n. Inr (1, []))\<rparr>) (calls s0)
     (account info0) (container info0) (name row5) = Inr (1, []) \<and>
   container_sync_row (env0\<lparr>get_nodes := (\<lambda>h a c n. Inr (1, []))\<rparr>) row5
       ''http://10.0.0.5/v1/AUTH_x/dest'' ''secret'' \<lparr>db_file = ''c.db''\<rparr> info0 s0
     = (False, s0\<lparr>calls := [GetNodes ''AUTH_a'' ''c'' ''a.txt''],
                   logged := [ExceptionSyncingRow ''c.db'' row5 (UnboundLocalError ''node'')],
                   container_failures := 1\<rparr>)"
proof -
  have h: "\<not> deleted row5"
    "get_nodes (env0\<lparr>get_nodes := (\<lambda>h a c n. Inr (1, []))\<rparr>) (calls s0)
       (account info0) (container info0) (name row5) = Inr (1, [])"
    by (simp_all add: row5_def)
  from empty_node_list_fails_row [OF h, of "''http://10.0.0.5/v1/AUTH_x/dest''" "''secret''"
      "\<lparr>db_file = ''c.db''\<rparr>"] h
  show ?thesis
    by (simp add: s0_def info0_def row5_def)
qed

end
